theory Spec2Isabelle
  imports Complex_Main "HOL-Library.AList"
begin

section \<open>Boards and win detection\<close>

text \<open>
  A board is a list of rows, each row a list of cells; a cell holds 0 (empty), 1 (the
  challenger's piece) or 2 (the opponent's piece). \<open>game_selection\<close> creates a
  connect-four board with 6 rows of 7 cells and a tic-tac-toe board with 3 rows of 3
  cells, and the move handlers only ever assign to an existing cell, so every board
  handed to the checks below is well formed and no read leaves the board (where Python
  would raise IndexError).
\<close>

type_synonym board = "int list list"

definition wf_board :: "nat \<Rightarrow> nat \<Rightarrow> board \<Rightarrow> bool" where
  "wf_board rows cols b = (length b = rows \<and> list_all (\<lambda>row. length row = cols) b)"

text \<open>
  \<open>check_connect_four_win\<close>: four loops, each returning True at the first window of
  four cells that all equal \<open>player_num\<close>; False when no loop returns.
\<close>

definition check_connect_four_win :: "board \<Rightarrow> int \<Rightarrow> bool" where
  "check_connect_four_win board player_num =
     (list_ex (\<lambda>r. list_ex (\<lambda>c.
        list_all (\<lambda>i. board ! r ! (c + i) = player_num) [0..<4]) [0..<4]) [0..<6]
    \<or> list_ex (\<lambda>r. list_ex (\<lambda>c.
        list_all (\<lambda>i. board ! (r + i) ! c = player_num) [0..<4]) [0..<7]) [0..<3]
    \<or> list_ex (\<lambda>r. list_ex (\<lambda>c.
        list_all (\<lambda>i. board ! (r + i) ! (c + i) = player_num) [0..<4]) [0..<4]) [0..<3]
    \<or> list_ex (\<lambda>r. list_ex (\<lambda>c.
        list_all (\<lambda>i. board ! (r - i) ! (c + i) = player_num) [0..<4]) [0..<4]) [3..<6])"

text \<open>\<open>check_connect_four_draw\<close>: the top row (row 0) has no empty cell.\<close>

definition check_connect_four_draw :: "board \<Rightarrow> bool" where
  "check_connect_four_draw board = list_all (\<lambda>cell. cell \<noteq> 0) (board ! 0)"

text \<open>
  \<open>check_tictactoe_win\<close>: for each \<open>i\<close>, row \<open>i\<close> then column \<open>i\<close>; then the two
  diagonals.
\<close>

definition check_tictactoe_win :: "board \<Rightarrow> int \<Rightarrow> bool" where
  "check_tictactoe_win board player_num =
     (list_ex (\<lambda>i. list_all (\<lambda>j. board ! i ! j = player_num) [0..<3]
                  \<or> list_all (\<lambda>j. board ! j ! i = player_num) [0..<3]) [0..<3]
    \<or> list_all (\<lambda>i. board ! i ! i = player_num) [0..<3]
    \<or> list_all (\<lambda>i. board ! i ! (2 - i) = player_num) [0..<3])"

definition check_tictactoe_draw :: "board \<Rightarrow> bool" where
  "check_tictactoe_draw board = list_all (\<lambda>row. list_all (\<lambda>cell. cell \<noteq> 0) row) board"

subsection \<open>The winning lines of a grid, following the rules of the games\<close>

text \<open>
  Independently of the code: a line of length \<open>k\<close> starts at a cell and runs in one of
  four directions (right, down, down-right, up-right); it is a winning line of the
  \<open>rows \<times> cols\<close> grid when all its cells lie on the grid. A player owns a line when
  every cell of it holds that player's number.
\<close>

definition directions :: "(int \<times> int) list" where
  "directions = [(0, 1), (1, 0), (1, 1), (-1, 1)]"

definition line_from :: "nat \<Rightarrow> int \<Rightarrow> int \<Rightarrow> int \<times> int \<Rightarrow> (int \<times> int) list" where
  "line_from k r c d = map (\<lambda>i. (r + int i * fst d, c + int i * snd d)) [0..<k]"

definition in_grid :: "int \<Rightarrow> int \<Rightarrow> int \<times> int \<Rightarrow> bool" where
  "in_grid rows cols q = (0 \<le> fst q \<and> fst q < rows \<and> 0 \<le> snd q \<and> snd q < cols)"

definition grid_lines :: "int \<Rightarrow> int \<Rightarrow> nat \<Rightarrow> (int \<times> int) list list" where
  "grid_lines rows cols k =
     filter (list_all (in_grid rows cols))
       (concat (map (\<lambda>d. concat (map (\<lambda>r. map (\<lambda>c. line_from k r c d) [0..cols - 1])
                                       [0..rows - 1])) directions))"

definition owns :: "board \<Rightarrow> int \<Rightarrow> (int \<times> int) list \<Rightarrow> bool" where
  "owns board p line = list_all (\<lambda>q. board ! nat (fst q) ! nat (snd q) = p) line"

section \<open>Sessions, stakes and the stored state\<close>

text \<open>
  Group, chat and user identifiers are Telegram integers; the JSON files key their
  dictionaries by the decimal string of the identifier, which is injective, so the model
  keys by the integer. A dictionary of dictionaries \<open>data[group][user]\<close> is one map on
  pairs. Time stamps (\<open>time.time()\<close>) are real numbers of seconds.
\<close>

datatype game_type = Dice | ConnectFour | TicTacToe | Battleship

datatype status =
  PendingGameSelection | PendingOpponentAcceptance | PendingOpponentStake | Active | Complete

datatype media_kind = Photo | Video | Voice

text \<open>
  A stake is the dictionary \<open>{"type": ..., "value": ...}\<close>: type \<open>points\<close> with an
  integer, or one of the three media types with a file identifier
  (\<open>stake_submission_points\<close>, \<open>stake_submission_media\<close> write nothing else).
\<close>

datatype stake = Points int | Media media_kind string

text \<open>
  One entry of \<open>games.json\<close>. A key that the Python dictionary may lack is an
  \<open>option\<close> (read with \<open>.get\<close>), a flag that is False when the key is missing
  (\<open>warning_sent\<close>, \<open>is_revenge\<close>), or a field the handlers read only in the states
  where the key was written (\<open>board\<close>, the dice fields).
\<close>

record game =
  group_id :: int
  challenger_id :: int
  opponent_id :: int
  game_type :: "game_type option"
  challenger_stake :: "stake option"
  opponent_stake :: "stake option"
  status :: status
  messages_to_delete :: "(int \<times> int) list"
  last_activity :: real
  warning_sent :: bool
  is_revenge :: bool
  old_game_id :: "string option"
  winner_id :: "int option"
  loser_id :: "int option"
  board :: board
  turn :: "int option"
  rounds_to_play :: int
  current_round :: int
  challenger_score :: int
  opponent_score :: int
  last_roll :: "(int \<times> int) option"

datatype tod_kind = Truth | Dare

datatype tod_status = PendingAcceptance | AwaitingProof

text \<open>One entry of \<open>active_tod_games.json\<close>.\<close>

record tod_game =
  tod_user_id :: int
  tod_group_id :: int
  tod_type :: tod_kind
  tod_text :: string
  tod_message_id :: int
  tod_chat_id :: int
  timestamp :: real
  tod_status :: tod_status

text \<open>One rule of \<open>punishments.json\<close>; both keys are read with \<open>.get\<close>.\<close>

record punishment =
  threshold :: "int option"
  message :: "string option"

subsection \<open>What the bot sends\<close>

text \<open>
  The texts the handlers send, one constructor per template, carrying the values the
  template interpolates (a display name is given by the user's identifier), grouped by
  the part of the bot that sends them.
\<close>

datatype ledger_notice =
    PunishmentIssued int int string
  | PunishmentTriggered int int string int
  | NegativeStrike int int
  | ThirdStrike int
  | ThirdStrikeAdmin int int

datatype settlement_notice =
    GameWonPoints int int int
  | LoserStakeCaption int int
  | BattleshipWon
  | BattleshipLost
  | DrawAnnounced int int
  | LostPointsInDraw int int
  | DrawStakeCaption int
  | ChallengeExpired int int
  | CancelledForInactivity int int
  | CancelledStakeCaption int
  | InactivityWarning int int

datatype move_notice =
    NoLongerActive
  | NotYourTurn
  | ColumnFull
  | SpotTaken
  | ConnectFourOver board int
  | ConnectFourDraw board
  | ConnectFourTurn board int
  | TicTacToeOver board int
  | TicTacToeDraw board
  | TicTacToeTurn board int

datatype tod_notice =
    TodCompleted int tod_kind
  | TodCompletedPrompt tod_kind string
  | WrongProof tod_kind

datatype challenge_notice =
    OnlyInGroups
  | ReplyToChallenge
  | CannotChallengeYourself
  | CannotChallengeBot
  | AlreadyActiveGame
  | AlreadyActiveGameRevenge
  | Challenged int int
  | SetupPrompt
  | RevengeError
  | OldGameNotFound
  | OldGameIncomplete
  | NotYourRevenge
  | WantsRevenge int int
  | RevengeSetupPrompt

datatype dice_notice =
    DiceWaiting int int
  | DiceNotYourTurn
  | DiceTie int
  | DiceRoundWon int int int int
  | DiceNextRound int

datatype response_notice =
    ChallengeNoLongerValid
  | ChallengeNotForYou
  | ChallengeAccepted
  | OpponentStakePrompt
  | RevengeRefusedNoOldGame int
  | RevengeRefusedPoints int int int
  | RevengeRefusedCaption int int
  | RevengeRefusedNoStake int
  | RevengeRefused
  | YourChallengeRefused int
  | RefusedLoserPoints int int
  | RefusedLoserCaption int
  | ChallengeRefused

datatype notice =
    Ledger ledger_notice
  | Settlement settlement_notice
  | Move move_notice
  | Tod tod_notice
  | Challenge challenge_notice
  | DiceGame dice_notice
  | Response response_notice

text \<open>
  The calls to the messaging platform. \<open>SendMessage\<close>, \<open>SendMedia\<close>
  (\<open>send_photo\<close>, \<open>send_video\<close>, \<open>send_voice\<close>) and \<open>ReplyText\<close> post into a chat;
  \<open>EditQueryMessage\<close> rewrites the message that carries the pressed button and
  \<open>EditMessageAt\<close> a message given by chat and message identifier;
  \<open>AnswerQuery\<close> acknowledges a button press and \<open>AnswerAlert\<close> shows a pop-up to the
  user who pressed it, and to nobody else.
\<close>

datatype event =
    SendMessage int notice
  | SendMedia int media_kind string notice
  | ReplyText int notice
  | EditQueryMessage notice
  | EditMessageAt int int notice
  | RemoveQueryMarkup
  | AnswerQuery int
  | AnswerAlert int notice
  | RestrictChatMember int int nat
  | DeleteMessage int int

text \<open>
  The state the handlers read and write: the five JSON files, the list of calls made to
  the platform so far, and what the platform answers. Calls that post, edit or look up
  are taken to succeed. \<open>restrict_chat_member\<close> is refused by the platform for some
  members (administrators, or when the bot lacks the right), and the code catches that
  refusal: \<open>restrict_fails\<close> says for whom the call raises. \<open>admins\<close> is the answer of
  \<open>get_chat_administrators\<close>; \<open>next_message_id\<close> is the identifier the platform gives
  to the next message sent through \<open>send_and_track_message\<close>.
\<close>

record world =
  points :: "int \<times> int \<Rightarrow> int option"
  negative_tracker :: "int \<times> int \<Rightarrow> int option"
  punishments :: "int \<Rightarrow> punishment list option"
  punishment_status :: "int \<times> int \<Rightarrow> string list option"
  games :: "(string \<times> game) list"
  active_tod_games :: "(string \<times> tod_game) list"
  outbox :: "event list"
  admins :: "int \<Rightarrow> int list"
  restrict_fails :: "int \<Rightarrow> int \<Rightarrow> bool"
  next_message_id :: int

definition emit :: "event \<Rightarrow> world \<Rightarrow> world" where
  "emit e w = w\<lparr>outbox := outbox w @ [e]\<rparr>"

section \<open>Points ledger and punishments\<close>

definition get_user_points :: "world \<Rightarrow> int \<Rightarrow> int \<Rightarrow> int" where
  "get_user_points w g u = (case points w (g, u) of None \<Rightarrow> 0 | Some p \<Rightarrow> p)"

definition set_user_points :: "int \<Rightarrow> int \<Rightarrow> int \<Rightarrow> world \<Rightarrow> world" where
  "set_user_points g u p w = w\<lparr>points := (points w)((g, u) \<mapsto> p)\<rparr>"

definition get_triggered_punishments_for_user :: "world \<Rightarrow> int \<Rightarrow> int \<Rightarrow> string list" where
  "get_triggered_punishments_for_user w g u =
     (case punishment_status w (g, u) of None \<Rightarrow> [] | Some ms \<Rightarrow> ms)"

text \<open>
  \<open>add_triggered_punishment_for_user\<close> creates the user's list when missing and appends
  the message unless it is there. The file is written only when the message is
  appended, so a list created empty and left empty is not stored.
\<close>

definition add_triggered_punishment_for_user :: "int \<Rightarrow> int \<Rightarrow> string \<Rightarrow> world \<Rightarrow> world" where
  "add_triggered_punishment_for_user g u m w =
     (let ms = get_triggered_punishments_for_user w g u
      in if m \<notin> set ms then w\<lparr>punishment_status := (punishment_status w)((g, u) \<mapsto> ms @ [m])\<rparr>
         else w)"

text \<open>\<open>list.remove\<close> deletes the first occurrence.\<close>

definition remove_triggered_punishment_for_user :: "int \<Rightarrow> int \<Rightarrow> string \<Rightarrow> world \<Rightarrow> world" where
  "remove_triggered_punishment_for_user g u m w =
     (case punishment_status w (g, u) of
        None \<Rightarrow> w
      | Some ms \<Rightarrow>
          if m \<in> set ms then w\<lparr>punishment_status := (punishment_status w)((g, u) \<mapsto> remove1 m ms)\<rparr>
          else w)"

definition notify_admins :: "int \<Rightarrow> notice \<Rightarrow> world \<Rightarrow> world" where
  "notify_admins g n w = w\<lparr>outbox := outbox w @ map (\<lambda>a. SendMessage a n) (admins w g)\<rparr>"

text \<open>
  The body of the loop of \<open>check_for_punishment\<close>, for one rule. \<open>triggered\<close> is the
  list read once before the loop; the add and remove helpers read and write the file
  again, the membership tests use the list read before the loop.
\<close>

definition punishment_step ::
  "int \<Rightarrow> int \<Rightarrow> int \<Rightarrow> int \<Rightarrow> string list \<Rightarrow> punishment \<Rightarrow> world \<Rightarrow> world" where
  "punishment_step g u old_points new_points triggered p w =
     (case (threshold p, message p) of
        (Some t, Some m) \<Rightarrow>
          if old_points \<ge> t \<and> new_points < t then
            (if m \<notin> set triggered then
               add_triggered_punishment_for_user g u m
                 (notify_admins g (Ledger (PunishmentTriggered u g m t))
                   (emit (SendMessage g (Ledger (PunishmentIssued u t m))) w))
             else w)
          else if new_points \<ge> t then
            (if m \<in> set triggered then remove_triggered_punishment_for_user g u m w else w)
          else w
      | _ \<Rightarrow> w)"

fun punishment_loop ::
  "int \<Rightarrow> int \<Rightarrow> int \<Rightarrow> int \<Rightarrow> string list \<Rightarrow> punishment list \<Rightarrow> world \<Rightarrow> world" where
  "punishment_loop g u old_points new_points triggered [] w = w"
| "punishment_loop g u old_points new_points triggered (p # ps) w =
     punishment_loop g u old_points new_points triggered ps
       (punishment_step g u old_points new_points triggered p w)"

definition check_for_punishment :: "int \<Rightarrow> int \<Rightarrow> int \<Rightarrow> int \<Rightarrow> world \<Rightarrow> world" where
  "check_for_punishment g u old_points new_points w =
     (case punishments w g of
        None \<Rightarrow> w
      | Some group_punishments \<Rightarrow>
          punishment_loop g u old_points new_points
            (get_triggered_punishments_for_user w g u) group_punishments w)"

definition strikes :: "world \<Rightarrow> int \<Rightarrow> int \<Rightarrow> int" where
  "strikes w g u = (case negative_tracker w (g, u) of None \<Rightarrow> 0 | Some c \<Rightarrow> c)"

text \<open>
  \<open>check_for_negative_points\<close>. Below three strikes the mute, the reset of the balance
  and the notice are inside one \<open>try\<close>: when \<open>restrict_chat_member\<close> raises, the
  exception is logged and neither the reset nor the notice happens.
\<close>

definition check_for_negative_points :: "int \<Rightarrow> int \<Rightarrow> int \<Rightarrow> world \<Rightarrow> world" where
  "check_for_negative_points g u pts w =
     (if pts < 0 then
        (let current_strikes = strikes w g u + 1;
             w1 = w\<lparr>negative_tracker := (negative_tracker w)((g, u) \<mapsto> current_strikes)\<rparr>
         in if current_strikes < 3 then
              (if restrict_fails w1 g u then w1
               else emit (SendMessage g (Ledger (NegativeStrike u current_strikes)))
                      (set_user_points g u 0
                        (emit (RestrictChatMember g u 86400) w1)))
            else
              notify_admins g (Ledger (ThirdStrikeAdmin u g))
                (emit (SendMessage g (Ledger (ThirdStrike u)))
                  (w1\<lparr>negative_tracker := (negative_tracker w1)((g, u) \<mapsto> 0)\<rparr>)))
      else w)"

text \<open>\<open>add_user_points\<close>, the one operation that applies a delta to a balance.\<close>

definition add_user_points :: "int \<Rightarrow> int \<Rightarrow> int \<Rightarrow> world \<Rightarrow> world" where
  "add_user_points g u delta w =
     (let old_points = get_user_points w g u;
          new_points = old_points + delta;
          w1 = set_user_points g u new_points w;
          w2 = (if new_points \<ge> 0 then
                  (case negative_tracker w1 (g, u) of
                     None \<Rightarrow> w1
                   | Some c \<Rightarrow>
                       if c \<noteq> 0 then w1\<lparr>negative_tracker := (negative_tracker w1)((g, u) \<mapsto> 0)\<rparr>
                       else w1)
                else w1);
          w3 = check_for_punishment g u old_points new_points w2
      in check_for_negative_points g u new_points w3)"

subsection \<open>What one rule does, for stating the properties\<close>

text \<open>
  Whether a rule fires for a change of balance, given the messages armed before the
  change, and the calls it then makes: one notice in the group and one private notice
  for each administrator.
\<close>

definition rule_fires :: "int \<Rightarrow> int \<Rightarrow> string list \<Rightarrow> punishment \<Rightarrow> bool" where
  "rule_fires old_points new_points triggered p =
     (case (threshold p, message p) of
        (Some t, Some m) \<Rightarrow> old_points \<ge> t \<and> new_points < t \<and> m \<notin> set triggered
      | _ \<Rightarrow> False)"

definition rule_events :: "int \<Rightarrow> int \<Rightarrow> int list \<Rightarrow> punishment \<Rightarrow> event list" where
  "rule_events g u as p =
     (case (threshold p, message p) of
        (Some t, Some m) \<Rightarrow>
           SendMessage g (Ledger (PunishmentIssued u t m))
             # map (\<lambda>a. SendMessage a (Ledger (PunishmentTriggered u g m t))) as
      | _ \<Rightarrow> [])"

subsection \<open>A concrete group\<close>

text \<open>
  Group 101 with one rule (threshold 0), user 1 holding 50 points, administrator 99.
  The argument says whether the platform refuses to restrict members.
\<close>

definition ledger_world :: "bool \<Rightarrow> world" where
  "ledger_world refuse =
     \<lparr>points = [(101, 1) \<mapsto> 50],
      negative_tracker = Map.empty,
      punishments = [101 \<mapsto> [\<lparr>threshold = Some 0, message = Some ''You are grounded.''\<rparr>]],
      punishment_status = Map.empty,
      games = [],
      active_tod_games = [],
      outbox = [],
      admins = (\<lambda>g. if g = 101 then [99] else []),
      restrict_fails = (\<lambda>g u. refuse),
      next_message_id = 1\<rparr>"

section \<open>The games file\<close>

text \<open>
  \<open>games.json\<close> is a dictionary in insertion order: an association list, read with
  \<open>map_of\<close>, written with \<open>AList.update\<close> (in place when the key exists, at the end
  otherwise) and \<open>AList.delete\<close>. A handler loads the whole file into a local
  \<open>games_data\<close>, changes entries there and saves the whole of it; the model keeps that
  local copy where the handler does, so a save writes what the handler loaded, not what
  a helper stored in between. An exception the handler does not catch (a missing key)
  ends the handler and leaves the files as they are at that point.
\<close>

definition update_game_activity :: "string \<Rightarrow> real \<Rightarrow> world \<Rightarrow> world" where
  "update_game_activity game_id now w =
     (case map_of (games w) game_id of
        None \<Rightarrow> w
      | Some game \<Rightarrow>
          w\<lparr>games := AList.update game_id
                        (game\<lparr>last_activity := now, warning_sent := False\<rparr>) (games w)\<rparr>)"

definition delete_tracked_messages :: "string \<Rightarrow> world \<Rightarrow> world" where
  "delete_tracked_messages game_id w =
     (case map_of (games w) game_id of
        None \<Rightarrow> w
      | Some game \<Rightarrow>
          w\<lparr>outbox := outbox w @ map (\<lambda>(c, m). DeleteMessage c m) (messages_to_delete game),
            games := AList.update game_id (game\<lparr>messages_to_delete := []\<rparr>) (games w)\<rparr>)"

definition send_and_track_message :: "int \<Rightarrow> string \<Rightarrow> notice \<Rightarrow> world \<Rightarrow> world" where
  "send_and_track_message chat game_id n w =
     (let mid = next_message_id w;
          w1 = w\<lparr>outbox := outbox w @ [SendMessage chat n], next_message_id := mid + 1\<rparr>
      in case map_of (games w1) game_id of
           None \<Rightarrow> w1
         | Some game \<Rightarrow>
             w1\<lparr>games := AList.update game_id
                   (game\<lparr>messages_to_delete := messages_to_delete game @ [(chat, mid)]\<rparr>)
                   (games w1)\<rparr>)"

section \<open>Settlement\<close>

text \<open>
  \<open>handle_game_over\<close>: the loser's stake goes to the winner (points: two deltas; media:
  posted in the group). Without a stake for the loser the function logs and returns,
  leaving the status as it is.
\<close>

definition handle_game_over :: "string \<Rightarrow> int \<Rightarrow> int \<Rightarrow> world \<Rightarrow> world" where
  "handle_game_over game_id winner loser w =
     (let games_data = games w
      in case map_of games_data game_id of
           None \<Rightarrow> w
         | Some game \<Rightarrow>
             (case (if challenger_id game = loser then challenger_stake game
                    else opponent_stake game) of
                None \<Rightarrow> w
              | Some loser_stake \<Rightarrow>
                  let g = group_id game;
                      w1 = (case loser_stake of
                              Points v \<Rightarrow>
                                emit (SendMessage g (Settlement (GameWonPoints winner loser v)))
                                  (add_user_points g loser (- v) (add_user_points g winner v w))
                            | Media k f \<Rightarrow>
                                emit (SendMedia g k f (Settlement (LoserStakeCaption winner loser))) w);
                      w2 = (if game_type game = Some Battleship then
                              emit (SendMessage loser (Settlement BattleshipLost))
                                (emit (SendMessage winner (Settlement BattleshipWon)) w1)
                            else w1)
                  in delete_tracked_messages game_id
                       (w2\<lparr>games := AList.update game_id
                              (game\<lparr>winner_id := Some winner, loser_id := Some loser,
                                    status := Complete\<rparr>) games_data\<rparr>)))"

text \<open>What \<open>handle_game_draw\<close> does with one player's stake.\<close>

definition lose_stake_in_draw :: "int \<Rightarrow> int \<Rightarrow> stake option \<Rightarrow> world \<Rightarrow> world" where
  "lose_stake_in_draw g player st w =
     (case st of
        None \<Rightarrow> w
      | Some (Points v) \<Rightarrow>
          emit (SendMessage g (Settlement (LostPointsInDraw player v)))
            (add_user_points g player (- v) w)
      | Some (Media k f) \<Rightarrow> emit (SendMedia g k f (Settlement (DrawStakeCaption player))) w)"

definition handle_game_draw :: "string \<Rightarrow> world \<Rightarrow> world" where
  "handle_game_draw game_id w =
     (let games_data = games w
      in case map_of games_data game_id of
           None \<Rightarrow> w
         | Some game \<Rightarrow>
             let g = group_id game;
                 w1 = emit (SendMessage g
                        (Settlement (DrawAnnounced (challenger_id game) (opponent_id game)))) w;
                 w2 = lose_stake_in_draw g (challenger_id game) (challenger_stake game) w1;
                 w3 = lose_stake_in_draw g (opponent_id game) (opponent_stake game) w2
             in delete_tracked_messages game_id
                  (w3\<lparr>games := AList.update game_id (game\<lparr>status := Complete\<rparr>) games_data\<rparr>))"

text \<open>
  \<open>handle_challenge_timeout\<close> acts only on a session that is still waiting for the
  opponent's answer, and touches no stake.
\<close>

definition handle_challenge_timeout :: "string \<Rightarrow> world \<Rightarrow> world" where
  "handle_challenge_timeout game_id w =
     (let games_data = games w
      in case map_of games_data game_id of
           None \<Rightarrow> w
         | Some game \<Rightarrow>
             if status game \<noteq> PendingOpponentAcceptance then w
             else delete_tracked_messages game_id
                    ((emit (SendMessage (group_id game)
                        (Settlement (ChallengeExpired (challenger_id game) (opponent_id game)))) w)
                     \<lparr>games := AList.update game_id (game\<lparr>status := Complete\<rparr>) games_data\<rparr>))"

text \<open>What \<open>handle_game_cancellation\<close> does with one player's stake.\<close>

definition lose_stake_in_cancellation :: "int \<Rightarrow> int \<Rightarrow> stake option \<Rightarrow> world \<Rightarrow> world" where
  "lose_stake_in_cancellation g player st w =
     (case st of
        None \<Rightarrow> w
      | Some (Points v) \<Rightarrow> add_user_points g player (- v) w
      | Some (Media k f) \<Rightarrow>
          emit (SendMedia g k f (Settlement (CancelledStakeCaption player))) w)"

definition handle_game_cancellation :: "string \<Rightarrow> world \<Rightarrow> world" where
  "handle_game_cancellation game_id w =
     (let games_data = games w
      in case map_of games_data game_id of
           None \<Rightarrow> w
         | Some game \<Rightarrow>
             if status game = Complete then w
             else
               let g = group_id game;
                   w1 = emit (SendMessage g (Settlement
                          (CancelledForInactivity (challenger_id game) (opponent_id game)))) w;
                   w2 = lose_stake_in_cancellation g (challenger_id game) (challenger_stake game) w1;
                   w3 = lose_stake_in_cancellation g (opponent_id game) (opponent_stake game) w2
               in delete_tracked_messages game_id
                    (w3\<lparr>games := AList.update game_id (game\<lparr>status := Complete\<rparr>) games_data\<rparr>))"

section \<open>Moves on a board\<close>

text \<open>
  The loop of \<open>connect_four_move_handler\<close> that finds the lowest empty cell of the
  column (rows 5 down to 0) and puts the piece there; \<open>None\<close> when the column is full.
\<close>

definition drop_piece :: "board \<Rightarrow> nat \<Rightarrow> int \<Rightarrow> board option" where
  "drop_piece b col player_num =
     (case List.find (\<lambda>r. b ! r ! col = 0) (rev [0..<6]) of
        None \<Rightarrow> None
      | Some r \<Rightarrow> Some (b[r := (b ! r)[col := player_num]]))"

definition other_player :: "game \<Rightarrow> int \<Rightarrow> int" where
  "other_player game user_id =
     (if user_id = challenger_id game then opponent_id game else challenger_id game)"

definition connect_four_move_handler :: "string \<Rightarrow> nat \<Rightarrow> int \<Rightarrow> real \<Rightarrow> world \<Rightarrow> world" where
  "connect_four_move_handler game_id col user_id now w0 =
     (let w = update_game_activity game_id now (emit (AnswerQuery user_id) w0);
          games_data = games w
      in case map_of games_data game_id of
           None \<Rightarrow> emit (EditQueryMessage (Move NoLongerActive)) w
         | Some game \<Rightarrow>
             if status game \<noteq> Active then emit (EditQueryMessage (Move NoLongerActive)) w
             else if turn game \<noteq> Some user_id then
               emit (AnswerAlert user_id (Move NotYourTurn)) w
             else
               let player_num = (if user_id = challenger_id game then 1 else 2)
               in case drop_piece (board game) col player_num of
                    None \<Rightarrow> emit (AnswerAlert user_id (Move ColumnFull)) w
                  | Some b \<Rightarrow>
                      if check_connect_four_win b player_num then
                        handle_game_over game_id user_id (other_player game user_id)
                          (emit (EditQueryMessage (Move (ConnectFourOver b user_id))) w)
                      else if check_connect_four_draw b then
                        (emit (EditQueryMessage (Move (ConnectFourDraw b))) w)
                        \<lparr>games := AList.update game_id
                                    (game\<lparr>board := b, status := Complete\<rparr>) games_data\<rparr>
                      else
                        emit (EditQueryMessage
                                (Move (ConnectFourTurn b (other_player game user_id))))
                          (w\<lparr>games := AList.update game_id
                                (game\<lparr>board := b, turn := Some (other_player game user_id)\<rparr>)
                                games_data\<rparr>))"

definition tictactoe_move_handler ::
  "string \<Rightarrow> nat \<Rightarrow> nat \<Rightarrow> int \<Rightarrow> real \<Rightarrow> world \<Rightarrow> world" where
  "tictactoe_move_handler game_id r c user_id now w0 =
     (let w = update_game_activity game_id now (emit (AnswerQuery user_id) w0);
          games_data = games w
      in case map_of games_data game_id of
           None \<Rightarrow> emit (EditQueryMessage (Move NoLongerActive)) w
         | Some game \<Rightarrow>
             if status game \<noteq> Active then emit (EditQueryMessage (Move NoLongerActive)) w
             else if turn game \<noteq> Some user_id then
               emit (AnswerAlert user_id (Move NotYourTurn)) w
             else
               let player_num = (if user_id = challenger_id game then 1 else 2)
               in if board game ! r ! c \<noteq> 0 then
                    emit (AnswerAlert user_id (Move SpotTaken)) w
                  else
                    let b = (board game)[r := (board game ! r)[c := player_num]]
                    in if check_tictactoe_win b player_num then
                         handle_game_over game_id user_id (other_player game user_id)
                           (emit (EditQueryMessage (Move (TicTacToeOver b user_id))) w)
                       else if check_tictactoe_draw b then
                         handle_game_draw game_id
                           (emit (EditQueryMessage (Move (TicTacToeDraw b))) w)
                       else
                         emit (EditQueryMessage
                                 (Move (TicTacToeTurn b (other_player game user_id))))
                           (w\<lparr>games := AList.update game_id
                                 (game\<lparr>board := b, turn := Some (other_player game user_id)\<rparr>)
                                 games_data\<rparr>))"

section \<open>The inactivity scheduler\<close>

text \<open>
  The first loop of \<open>check_game_inactivity\<close>, over the two-player sessions. The loop
  runs over the entries loaded at the start of the tick; \<open>games_data\<close> is that loaded
  dictionary, changed in memory when a warning is marked and then saved as a whole. The
  two cancellation handlers load and save the file themselves. (The second loop of the
  function, over the truth-or-dare sessions, works on the other file.)
\<close>

definition inactivity_step ::
  "real \<Rightarrow> string \<times> game \<Rightarrow> (string \<times> game) list \<times> world \<Rightarrow> (string \<times> game) list \<times> world" where
  "inactivity_step now entry st =
     (let game_id = fst entry; game = snd entry; games_data = fst st; w = snd st
      in if status game = Complete then st
         else if status game = PendingOpponentAcceptance \<and> now - last_activity game > 120 then
           (games_data, handle_challenge_timeout game_id w)
         else if now - last_activity game > 420 then
           (games_data, handle_game_cancellation game_id w)
         else if now - last_activity game > 300 \<and> \<not> warning_sent game then
           (let games_data' = AList.update game_id (game\<lparr>warning_sent := True\<rparr>) games_data
            in (games_data',
                (emit (SendMessage (group_id game)
                   (Settlement (InactivityWarning (challenger_id game) (opponent_id game)))) w)
                \<lparr>games := games_data'\<rparr>))
         else st)"

definition check_game_inactivity :: "real \<Rightarrow> world \<Rightarrow> world" where
  "check_game_inactivity now w = snd (fold (inactivity_step now) (games w) (games w, w))"

section \<open>Truth or dare: proof\<close>

text \<open>What the handler looks at in an incoming message: which kinds of content it has.\<close>

record incoming =
  has_photo :: bool
  has_video :: bool
  has_text :: bool
  has_voice :: bool

definition tod_handle_proof_submission :: "int \<Rightarrow> int \<Rightarrow> incoming \<Rightarrow> world \<Rightarrow> world" where
  "tod_handle_proof_submission user_id chat_id msg w =
     (let active_games = active_tod_games w
      in case List.find (\<lambda>(game_id, game). tod_user_id game = user_id
                            \<and> tod_group_id game = chat_id \<and> tod_status game = AwaitingProof)
                active_games of
           None \<Rightarrow> w
         | Some (game_to_complete_id, game_details) \<Rightarrow>
             let is_valid_proof =
                   (if tod_type game_details = Dare \<and> (has_photo msg \<or> has_video msg) then True
                    else if tod_type game_details = Truth \<and> (has_text msg \<or> has_voice msg) then True
                    else False)
             in if is_valid_proof then
                  (emit (EditMessageAt (tod_chat_id game_details) (tod_message_id game_details)
                           (Tod (TodCompletedPrompt (tod_type game_details) (tod_text game_details))))
                     (emit (SendMessage chat_id (Tod (TodCompleted user_id (tod_type game_details))))
                        (add_user_points chat_id user_id 15 w)))
                  \<lparr>active_tod_games := AList.delete game_to_complete_id active_games\<rparr>
                else emit (ReplyText chat_id (Tod (WrongProof (tod_type game_details)))) w)"

section \<open>Creating sessions\<close>

definition group_has_open_game :: "(string \<times> game) list \<Rightarrow> int \<Rightarrow> bool" where
  "group_has_open_game games_data g =
     list_ex (\<lambda>(game_id, game). group_id game = g \<and> status game \<noteq> Complete) games_data"

text \<open>
  The dictionary \<open>newgame_command\<close> stores; the keys it does not write are the absent
  keys of the record. \<open>revenge_handler\<close> stores the same with \<open>is_revenge\<close> and
  \<open>old_game_id\<close>.
\<close>

definition fresh_game :: "int \<Rightarrow> int \<Rightarrow> int \<Rightarrow> real \<Rightarrow> game" where
  "fresh_game g challenger opponent now =
     \<lparr>group_id = g, challenger_id = challenger, opponent_id = opponent, game_type = None,
      challenger_stake = None, opponent_stake = None, status = PendingGameSelection,
      messages_to_delete = [], last_activity = now, warning_sent = False,
      is_revenge = False, old_game_id = None, winner_id = None, loser_id = None,
      board = [], turn = None, rounds_to_play = 0, current_round = 0,
      challenger_score = 0, opponent_score = 0, last_roll = None\<rparr>"

text \<open>
  \<open>newgame_command\<close>. \<open>in_group\<close>: the chat is a group; \<open>replied_to\<close>: the author of the
  message replied to, if the command is a reply; \<open>new_id\<close>: the identifier
  \<open>uuid.uuid4()\<close> returns.
\<close>

definition newgame_command ::
  "bool \<Rightarrow> int option \<Rightarrow> int \<Rightarrow> int \<Rightarrow> int \<Rightarrow> string \<Rightarrow> real \<Rightarrow> world \<Rightarrow> world" where
  "newgame_command in_group replied_to challenger bot_id g new_id now w =
     (if \<not> in_group then emit (ReplyText g (Challenge OnlyInGroups)) w
      else case replied_to of
        None \<Rightarrow> emit (ReplyText g (Challenge ReplyToChallenge)) w
      | Some opponent \<Rightarrow>
          if challenger = opponent then emit (ReplyText g (Challenge CannotChallengeYourself)) w
          else if opponent = bot_id then emit (ReplyText g (Challenge CannotChallengeBot)) w
          else
            let games_data = games w
            in if group_has_open_game games_data g then
                 emit (ReplyText g (Challenge AlreadyActiveGame)) w
               else
                 send_and_track_message challenger new_id (Challenge SetupPrompt)
                   (send_and_track_message g new_id (Challenge (Challenged challenger opponent))
                     (w\<lparr>games := AList.update new_id (fresh_game g challenger opponent now)
                                   games_data\<rparr>)))"

text \<open>
  \<open>revenge_handler\<close>, pressed by \<open>user_id\<close> on the result message of \<open>old_game_id\<close>.
  Python's \<open>not loser_id\<close> holds for a missing identifier and for 0.
\<close>

definition revenge_handler :: "string \<Rightarrow> int \<Rightarrow> string \<Rightarrow> real \<Rightarrow> world \<Rightarrow> world" where
  "revenge_handler old_id user_id new_id now w0 =
     (let w = emit (AnswerQuery user_id) w0;
          games_data = games w
      in case map_of games_data old_id of
           None \<Rightarrow> emit (EditQueryMessage (Challenge OldGameNotFound)) w
         | Some old_game \<Rightarrow>
             (case (loser_id old_game, winner_id old_game) of
                (Some loser, Some winner) \<Rightarrow>
                  if loser = 0 \<or> winner = 0 then
                    emit (EditQueryMessage (Challenge OldGameIncomplete)) w
                  else if user_id \<noteq> loser then
                    emit (AnswerAlert user_id (Challenge NotYourRevenge)) w
                  else
                    let g = group_id old_game
                    in if group_has_open_game games_data g then
                         emit (SendMessage g (Challenge AlreadyActiveGameRevenge)) w
                       else
                         emit RemoveQueryMarkup
                           (send_and_track_message loser new_id (Challenge RevengeSetupPrompt)
                             (emit (SendMessage g (Challenge (WantsRevenge loser winner)))
                               (w\<lparr>games := AList.update new_id
                                     ((fresh_game g loser winner now)
                                        \<lparr>is_revenge := True, old_game_id := Some old_id\<rparr>)
                                     games_data\<rparr>)))
              | _ \<Rightarrow> emit (EditQueryMessage (Challenge OldGameIncomplete)) w))"

section \<open>The dice game\<close>

text \<open>
  An emoji is the list of the code points of the string. \<open>dice_emoji_literal\<close> is the
  string literal that the first line of \<open>dice_roll_handler\<close> compares the emoji of the
  die with, as the source file has it: the four code points U+00F0, U+0178, U+017D and
  U+00B2 (the file holds the bytes C3 B0 C5 B8 C5 BD C2 B2). \<open>game_die\<close> is the emoji
  of a die as the platform sends it, the single code point U+1F3B2.
\<close>

definition dice_emoji_literal :: "nat list" where
  "dice_emoji_literal = [240, 376, 381, 178]"

definition game_die :: "nat list" where
  "game_die = [127922]"

definition find_dice_game :: "(string \<times> game) list \<Rightarrow> int \<Rightarrow> (string \<times> game) option" where
  "find_dice_game games_data user_id =
     List.find (\<lambda>(game_id, game). game_type game = Some Dice \<and> status game = Active
                  \<and> (challenger_id game = user_id \<or> opponent_id game = user_id)) games_data"

text \<open>
  \<open>dice_roll_handler\<close>, for a message \<open>message_id\<close> of chat \<open>chat_id\<close> sent by
  \<open>user_id\<close>; \<open>die\<close> is \<open>update.message.dice\<close>, emoji and value, \<open>None\<close> for a message
  without a die. The handler returns at once unless the emoji equals the literal. It
  then loads the file, updates the activity in the file through the helper, and goes on
  with the dictionary it loaded before: \<open>active_game\<close> is the entry of that dictionary,
  and a save writes that dictionary.
\<close>

definition dice_roll_handler ::
  "(nat list \<times> int) option \<Rightarrow> int \<Rightarrow> int \<Rightarrow> int \<Rightarrow> real \<Rightarrow> world \<Rightarrow> world" where
  "dice_roll_handler die user_id chat_id message_id now w0 =
     (case die of
        None \<Rightarrow> w0
      | Some (emoji, val) \<Rightarrow>
          if emoji \<noteq> dice_emoji_literal then w0
          else
            (let games_data = games w0
             in case find_dice_game games_data user_id of
                  None \<Rightarrow> w0
                | Some (active_game_id, game0) \<Rightarrow>
                    let w = update_game_activity active_game_id now w0;
                        active_game = game0\<lparr>messages_to_delete :=
                                        messages_to_delete game0 @ [(chat_id, message_id)]\<rparr>
                    in case last_roll active_game of
                         None \<Rightarrow>
                           (send_and_track_message chat_id active_game_id
                              (DiceGame (DiceWaiting val (other_player active_game user_id))) w)
                           \<lparr>games := AList.update active_game_id
                                       (active_game\<lparr>last_roll := Some (user_id, val)\<rparr>) games_data\<rparr>
                       | Some (player1_id, player1_roll) \<Rightarrow>
                           if player1_id = user_id then
                             send_and_track_message chat_id active_game_id (DiceGame DiceNotYourTurn) w
                           else if player1_roll = val then
                             (send_and_track_message chat_id active_game_id
                                (DiceGame (DiceTie player1_roll)) w)
                             \<lparr>games := AList.update active_game_id
                                         (active_game\<lparr>last_roll := None\<rparr>) games_data\<rparr>
                           else
                             let winner = (if player1_roll > val then player1_id else user_id);
                                 scored = (if winner = challenger_id active_game
                                           then active_game\<lparr>challenger_score :=
                                                               challenger_score active_game + 1\<rparr>
                                           else active_game\<lparr>opponent_score :=
                                                               opponent_score active_game + 1\<rparr>);
                                 w1 = send_and_track_message (group_id scored) active_game_id
                                        (DiceGame (DiceRoundWon winner (current_round scored)
                                           (challenger_score scored) (opponent_score scored))) w;
                                 rounds_to_win = rounds_to_play scored div 2 + 1
                             in if challenger_score scored \<ge> rounds_to_win
                                   \<or> opponent_score scored \<ge> rounds_to_win then
                                  (if challenger_score scored > opponent_score scored then
                                     handle_game_over active_game_id
                                       (challenger_id scored) (opponent_id scored)
                                       (w1\<lparr>games := AList.update active_game_id scored games_data\<rparr>)
                                   else
                                     handle_game_over active_game_id
                                       (opponent_id scored) (challenger_id scored)
                                       (w1\<lparr>games := AList.update active_game_id scored games_data\<rparr>))
                                else
                                  (send_and_track_message (group_id scored) active_game_id
                                     (DiceGame (DiceNextRound (current_round scored + 1))) w1)
                                  \<lparr>games := AList.update active_game_id
                                              (scored\<lparr>current_round := current_round scored + 1,
                                                      last_roll := None\<rparr>) games_data\<rparr>))"

section \<open>Answering a challenge\<close>

datatype response = Accept | Refuse

text \<open>
  The revenge branch of a refusal: the refuser is the winner of the original game, and
  what is settled is the stake the refuser had in the original game. \<open>None\<close> is the
  KeyError of an original game stored without winner or loser, which ends the handler.
\<close>

definition refuse_revenge :: "game \<Rightarrow> (string \<times> game) list \<Rightarrow> world \<Rightarrow> world option" where
  "refuse_revenge game games_data w =
     (let g = group_id game;
          fallback = emit (SendMessage g (Response (RevengeRefusedNoOldGame (opponent_id game)))) w
      in case old_game_id game of
           None \<Rightarrow> Some fallback
         | Some old_id \<Rightarrow>
             (case map_of games_data old_id of
                None \<Rightarrow> Some fallback
              | Some old_game \<Rightarrow>
                  (case (winner_id old_game, loser_id old_game) of
                     (Some refuser_id, Some challenger) \<Rightarrow>
                       (case (if challenger_id old_game = refuser_id
                              then challenger_stake old_game else opponent_stake old_game) of
                          None \<Rightarrow>
                            Some (emit (SendMessage g
                                          (Response (RevengeRefusedNoStake refuser_id))) w)
                        | Some (Points v) \<Rightarrow>
                            Some (emit (SendMessage g
                                    (Response (RevengeRefusedPoints refuser_id v challenger)))
                              (add_user_points g refuser_id (- v)
                                (add_user_points g challenger v w)))
                        | Some (Media k f) \<Rightarrow>
                            Some (emit (SendMedia g k f
                                    (Response (RevengeRefusedCaption refuser_id challenger))) w))
                   | _ \<Rightarrow> None)))"

definition challenge_response_handler ::
  "response \<Rightarrow> string \<Rightarrow> int \<Rightarrow> real \<Rightarrow> world \<Rightarrow> world" where
  "challenge_response_handler response_type game_id user_id now w0 =
     (let w = update_game_activity game_id now (emit (AnswerQuery user_id) w0);
          games_data = games w
      in case map_of games_data game_id of
           None \<Rightarrow> emit (EditQueryMessage (Response ChallengeNoLongerValid)) w
         | Some game \<Rightarrow>
             if user_id \<noteq> opponent_id game then
               emit (AnswerAlert user_id (Response ChallengeNotForYou)) w
             else
               (case response_type of
                  Accept \<Rightarrow>
                    send_and_track_message user_id game_id (Response OpponentStakePrompt)
                      (emit (EditQueryMessage (Response ChallengeAccepted))
                        (w\<lparr>games := AList.update game_id
                              (game\<lparr>status := PendingOpponentStake\<rparr>) games_data\<rparr>))
                | Refuse \<Rightarrow>
                    if is_revenge game then
                      (case refuse_revenge game games_data w of
                         None \<Rightarrow> w
                       | Some w1 \<Rightarrow>
                           emit (EditQueryMessage (Response RevengeRefused))
                             (w1\<lparr>games := AList.delete game_id games_data\<rparr>))
                    else
                      let g = group_id game;
                          challenger = challenger_id game;
                          w1 = emit (SendMessage challenger
                                       (Response (YourChallengeRefused user_id))) w
                      in case challenger_stake game of
                           None \<Rightarrow> w1
                         | Some (Points v) \<Rightarrow>
                             emit (EditQueryMessage (Response ChallengeRefused))
                               ((emit (SendMessage g (Response (RefusedLoserPoints challenger v)))
                                   (add_user_points g challenger (- v) w1))
                                \<lparr>games := AList.delete game_id games_data\<rparr>)
                         | Some (Media k f) \<Rightarrow>
                             emit (EditQueryMessage (Response ChallengeRefused))
                               ((emit (SendMedia g k f (Response (RefusedLoserCaption challenger)))
                                   w1)
                                \<lparr>games := AList.delete game_id games_data\<rparr>)))"

section \<open>Truth or dare: what counts as proof\<close>

text \<open>
  Following the specification: a dare is proved by a photo or a video, a truth by a text
  or a voice message. \<open>awaiting_proof_of\<close> says that an entry of the truth-or-dare file
  is a session of the user in the group that waits for proof. \<open>tod_world\<close> is a
  concrete state: user 1 of group 101 holds 50 points and has accepted a dare.
\<close>

definition proof_matches :: "tod_kind \<Rightarrow> incoming \<Rightarrow> bool" where
  "proof_matches kind msg =
     (case kind of Dare \<Rightarrow> has_photo msg \<or> has_video msg
                 | Truth \<Rightarrow> has_text msg \<or> has_voice msg)"

definition awaiting_proof_of :: "int \<Rightarrow> int \<Rightarrow> string \<times> tod_game \<Rightarrow> bool" where
  "awaiting_proof_of user_id chat_id entry =
     (tod_user_id (snd entry) = user_id \<and> tod_group_id (snd entry) = chat_id
      \<and> tod_status (snd entry) = AwaitingProof)"

definition tod_world :: world where
  "tod_world =
     \<lparr>points = [(101, 1) \<mapsto> 50],
      negative_tracker = Map.empty,
      punishments = Map.empty,
      punishment_status = Map.empty,
      games = [],
      active_tod_games =
        [(''t1'', \<lparr>tod_user_id = 1, tod_group_id = 101, tod_type = Dare,
                   tod_text = ''Sing a song'', tod_message_id = 7, tod_chat_id = 101,
                   timestamp = 0, tod_status = AwaitingProof\<rparr>)],
      outbox = [],
      admins = (\<lambda>g. []),
      restrict_fails = (\<lambda>g u. False),
      next_message_id = 1\<rparr>"

section \<open>Dice rounds, for stating the properties\<close>

text \<open>
  Two states of a dice session belong to the same round with the same score when both
  players' round counters and the round number agree. \<open>dice_world\<close> is a concrete
  state: an active best-of-3 dice session of users 1 and 2 in group 101, in round 1 at
  0:0, with the given opening roll.
\<close>

definition same_round :: "game \<Rightarrow> game \<Rightarrow> bool" where
  "same_round game game' =
     (challenger_score game' = challenger_score game
      \<and> opponent_score game' = opponent_score game
      \<and> current_round game' = current_round game)"

definition dice_game :: "(int \<times> int) option \<Rightarrow> game" where
  "dice_game opening =
     (fresh_game 101 1 2 0)
       \<lparr>game_type := Some Dice, challenger_stake := Some (Points 10),
        opponent_stake := Some (Points 10), status := Active, rounds_to_play := 3,
        current_round := 1, last_roll := opening\<rparr>"

definition dice_world :: "(int \<times> int) option \<Rightarrow> world" where
  "dice_world opening =
     \<lparr>points = [(101, 1) \<mapsto> 50, (101, 2) \<mapsto> 50],
      negative_tracker = Map.empty,
      punishments = Map.empty,
      punishment_status = Map.empty,
      games = [(''d1'', dice_game opening)],
      active_tod_games = [],
      outbox = [],
      admins = (\<lambda>g. []),
      restrict_fails = (\<lambda>g u. False),
      next_message_id = 1\<rparr>"

section \<open>Concrete board sessions\<close>

text \<open>
  \<open>c4_game\<close>: an active connect-four session of users 1 (challenger) and 2 in group
  101, 10 points staked by each, after 41 moves of a game in which nobody has four in a
  row: one cell is left, at the top of column 3, and it is the opponent's turn.
  \<open>ttt_game\<close>: an active tic-tac-toe session with eight cells taken and the
  challenger to move. \<open>board_world\<close> stores one session; both users hold 50 points.
\<close>

definition c4_game :: game where
  "c4_game =
     (fresh_game 101 1 2 0)
       \<lparr>game_type := Some ConnectFour, challenger_stake := Some (Points 10),
        opponent_stake := Some (Points 10), status := Active, warning_sent := True,
        board := [[2, 1, 2, 0, 1, 2, 1],
                  [1, 2, 1, 1, 1, 2, 2],
                  [2, 1, 2, 2, 2, 1, 1],
                  [1, 2, 2, 1, 1, 1, 2],
                  [2, 1, 1, 1, 2, 2, 2],
                  [2, 1, 2, 2, 1, 1, 1]],
        turn := Some 2\<rparr>"

definition ttt_game :: game where
  "ttt_game =
     (fresh_game 101 1 2 0)
       \<lparr>game_type := Some TicTacToe, challenger_stake := Some (Points 10),
        opponent_stake := Some (Points 20), status := Active,
        board := [[1, 2, 1], [1, 2, 2], [2, 1, 0]],
        turn := Some 1\<rparr>"

definition board_world :: "string \<Rightarrow> game \<Rightarrow> world" where
  "board_world game_id game =
     \<lparr>points = [(101, 1) \<mapsto> 50, (101, 2) \<mapsto> 50],
      negative_tracker = Map.empty,
      punishments = Map.empty,
      punishment_status = Map.empty,
      games = [(game_id, game)],
      active_tod_games = [],
      outbox = [],
      admins = (\<lambda>g. []),
      restrict_fails = (\<lambda>g u. False),
      next_message_id = 1\<rparr>"

section \<open>One open session per group, for stating the properties\<close>

text \<open>
  The open sessions of a group are the entries of the games file for that group whose
  status is not complete; the invariant says that every group has at most one.
  \<open>valid_challenge\<close>: the command passes the checks that come before the look at the
  games file. \<open>revenge_allowed\<close>: the original game is stored with a winner and a
  loser, and the user pressing the button is the loser.
\<close>

definition open_games :: "(string \<times> game) list \<Rightarrow> int \<Rightarrow> (string \<times> game) list" where
  "open_games gs g = filter (\<lambda>entry. group_id (snd entry) = g \<and> status (snd entry) \<noteq> Complete) gs"

definition single_active :: "(string \<times> game) list \<Rightarrow> bool" where
  "single_active gs = (\<forall>g. length (open_games gs g) \<le> 1)"

definition valid_challenge :: "bool \<Rightarrow> int option \<Rightarrow> int \<Rightarrow> int \<Rightarrow> bool" where
  "valid_challenge in_group replied_to challenger bot_id =
     (in_group \<and> (case replied_to of None \<Rightarrow> False
                   | Some opponent \<Rightarrow> challenger \<noteq> opponent \<and> opponent \<noteq> bot_id))"

definition revenge_allowed :: "(string \<times> game) list \<Rightarrow> string \<Rightarrow> int \<Rightarrow> bool" where
  "revenge_allowed gs old_id user_id =
     (case map_of gs old_id of
        None \<Rightarrow> False
      | Some old_game \<Rightarrow>
          (case (loser_id old_game, winner_id old_game) of
             (Some loser, Some winner) \<Rightarrow> loser \<noteq> 0 \<and> winner \<noteq> 0 \<and> user_id = loser
           | _ \<Rightarrow> False))"

section \<open>The ledger of a world, and the worlds of the refusal examples\<close>

text \<open>
  The ledger is what the points file, the negative-strike file and the punishment-status
  file hold. Two worlds have the same rules when they agree on the punishments of every
  group and on which mutes the platform rejects. \<open>refuser_stake\<close> is the expression of the
  same name in \<open>challenge_response_handler\<close>: the stake that the winner of the original
  game had put on it.
\<close>

definition ledger ::
  "world \<Rightarrow> (int \<times> int \<Rightarrow> int option) \<times> (int \<times> int \<Rightarrow> int option)
            \<times> (int \<times> int \<Rightarrow> string list option)" where
  "ledger w = (points w, negative_tracker w, punishment_status w)"

definition same_rules :: "world \<Rightarrow> world \<Rightarrow> bool" where
  "same_rules w1 w2 = (punishments w1 = punishments w2 \<and> restrict_fails w1 = restrict_fails w2)"

definition refuser_stake :: "game \<Rightarrow> int \<Rightarrow> stake option" where
  "refuser_stake old_game refuser =
     (if challenger_id old_game = refuser then challenger_stake old_game
      else opponent_stake old_game)"

definition refused_game :: game where
  "refused_game =
     (fresh_game 101 1 2 0)
       \<lparr>game_type := Some Dice, challenger_stake := Some (Points 10),
        status := PendingOpponentAcceptance\<rparr>"

definition settled_game :: game where
  "settled_game =
     (fresh_game 101 1 2 0)
       \<lparr>game_type := Some TicTacToe, challenger_stake := Some (Points 30),
        opponent_stake := Some (Points 30), status := Complete,
        winner_id := Some 1, loser_id := Some 2\<rparr>"

definition revenge_game :: game where
  "revenge_game =
     (fresh_game 101 2 1 0)
       \<lparr>is_revenge := True, old_game_id := Some ''old'', game_type := Some Dice,
        challenger_stake := Some (Points 10), status := PendingOpponentAcceptance\<rparr>"

definition revenge_world :: world where
  "revenge_world =
     (board_world ''old'' settled_game)
       \<lparr>games := [(''old'', settled_game), (''rev'', revenge_game)]\<rparr>"

text \<open>
  A session of group 101 between users 1 and 2, idle since time 0, on which only the
  challenger has staked (30 points), in a given status and with a given warning mark.
\<close>

definition idle_game :: "status \<Rightarrow> bool \<Rightarrow> game" where
  "idle_game s warned =
     (fresh_game 101 1 2 0)
       \<lparr>game_type := Some Dice, challenger_stake := Some (Points 30), status := s,
        warning_sent := warned\<rparr>"

text \<open>
  Worlds for the scheduler. \<open>two_sessions\<close>: the active session \<open>a\<close> of group 101 (users 1
  and 2, stakes of 10 and 20 points, idle since time 0) and the active session \<open>b\<close> of
  group 102 (users 3 and 4, idle since time 150), both balances of group 101 at 50.
  \<open>warned_dice_world\<close>: the dice session of \<open>dice_world\<close> with the warning mark set.
\<close>

definition waiting_game :: game where
  "waiting_game =
     (fresh_game 102 3 4 150)
       \<lparr>game_type := Some Dice, challenger_stake := Some (Points 5),
        opponent_stake := Some (Points 5), status := Active\<rparr>"

definition two_sessions :: world where
  "two_sessions =
     (board_world ''a'' ttt_game)\<lparr>games := [(''a'', ttt_game), (''b'', waiting_game)]\<rparr>"

definition warned_dice_world :: world where
  "warned_dice_world =
     (dice_world None)\<lparr>games := [(''d1'', (dice_game None)\<lparr>warning_sent := True\<rparr>)]\<rparr>"

section \<open>Win detection is exact\<close>

lemma connect_four_lines_count:
  "length (grid_lines 6 7 4) = 69 \<and> distinct (grid_lines 6 7 4)"
  by code_simp

lemma tictactoe_lines_count:
  "length (grid_lines 3 3 3) = 8 \<and> distinct (grid_lines 3 3 3)"
  by code_simp

lemma connect_four_win_iff:
  "check_connect_four_win b p = list_ex (owns b p) (grid_lines 6 7 4)"
  unfolding check_connect_four_win_def grid_lines_def owns_def line_from_def
    directions_def in_grid_def
  apply (simp add: upto.simps upt_rec)
  apply (simp add: eval_nat_numeral)
  done

lemma tictactoe_win_iff:
  "check_tictactoe_win b p = list_ex (owns b p) (grid_lines 3 3 3)"
  unfolding check_tictactoe_win_def grid_lines_def owns_def line_from_def
    directions_def in_grid_def
  apply (simp add: upto.simps upt_rec)
  apply (simp add: eval_nat_numeral)
  apply (simp only: conj_ac disj_ac)
  done

text \<open>
  C7. On a well-formed 6x7 board \<open>check_connect_four_win\<close> is true for a player exactly
  when the player owns one of the winning lines of four cells (horizontal, vertical or
  on either diagonal), of which there are 69; on a well-formed 3x3 board
  \<open>check_tictactoe_win\<close> is true exactly when the player owns one of the 8 full lines.
  So a win is reported on the move that completes a line and on no earlier board.
\<close>

theorem C7_win_detection_exact:
  assumes "wf_board 6 7 b" and "wf_board 3 3 t"
  shows "(check_connect_four_win b p = list_ex (owns b p) (grid_lines 6 7 4))
       \<and> length (grid_lines 6 7 4) = 69 \<and> distinct (grid_lines 6 7 4)
       \<and> (check_tictactoe_win t p = list_ex (owns t p) (grid_lines 3 3 3))
       \<and> length (grid_lines 3 3 3) = 8 \<and> distinct (grid_lines 3 3 3)"
  using connect_four_win_iff tictactoe_win_iff connect_four_lines_count tictactoe_lines_count
  by simp

theorem C7_win_detection_exact_witness:
  "wf_board 6 7 [[0,0,0,0,0,0,0], [0,0,0,0,0,0,0], [1,0,0,0,0,0,0],
                 [1,2,0,0,0,0,0], [1,2,0,0,0,0,0], [1,2,0,0,0,0,0]]
   \<and> wf_board 3 3 [[1,2,1], [0,2,0], [0,0,0]]
   \<and> check_connect_four_win [[0,0,0,0,0,0,0], [0,0,0,0,0,0,0], [1,0,0,0,0,0,0],
                 [1,2,0,0,0,0,0], [1,2,0,0,0,0,0], [1,2,0,0,0,0,0]] 1
   \<and> list_ex (owns [[0,0,0,0,0,0,0], [0,0,0,0,0,0,0], [1,0,0,0,0,0,0],
                 [1,2,0,0,0,0,0], [1,2,0,0,0,0,0], [1,2,0,0,0,0,0]] 1) (grid_lines 6 7 4)
   \<and> \<not> check_tictactoe_win [[1,2,1], [0,2,0], [0,0,0]] 1
   \<and> \<not> list_ex (owns [[1,2,1], [0,2,0], [0,0,0]] 1) (grid_lines 3 3 3)"
proof -
  let ?b = "[[0,0,0,0,0,0,0], [0,0,0,0,0,0,0], [1,0,0,0,0,0,0],
             [1,2,0,0,0,0,0], [1,2,0,0,0,0,0], [1,2,0,0,0,0,0]] :: board"
  let ?t = "[[1,2,1], [0,2,0], [0,0,0]] :: board"
  have wb: "wf_board 6 7 ?b" by (simp add: wf_board_def)
  have wt: "wf_board 3 3 ?t" by (simp add: wf_board_def)
  have c4: "check_connect_four_win ?b 1" by code_simp
  have tt: "\<not> check_tictactoe_win ?t 1" by code_simp
  from C7_win_detection_exact [OF wb wt, of 1] wb wt c4 tt show ?thesis by simp
qed

section \<open>The ledger: frame lemmas\<close>

lemma emit_fields [simp]:
  "outbox (emit e w) = outbox w @ [e]"
  "admins (emit e w) = admins w"
  "punishment_status (emit e w) = punishment_status w"
  "punishments (emit e w) = punishments w"
  "points (emit e w) = points w"
  "negative_tracker (emit e w) = negative_tracker w"
  "games (emit e w) = games w"
  "active_tod_games (emit e w) = active_tod_games w"
  "restrict_fails (emit e w) = restrict_fails w"
  "next_message_id (emit e w) = next_message_id w"
  by (simp_all add: emit_def)

lemma notify_admins_fields [simp]:
  "outbox (notify_admins g n w) = outbox w @ map (\<lambda>a. SendMessage a n) (admins w g)"
  "admins (notify_admins g n w) = admins w"
  "punishment_status (notify_admins g n w) = punishment_status w"
  "punishments (notify_admins g n w) = punishments w"
  "points (notify_admins g n w) = points w"
  "negative_tracker (notify_admins g n w) = negative_tracker w"
  "games (notify_admins g n w) = games w"
  "active_tod_games (notify_admins g n w) = active_tod_games w"
  "restrict_fails (notify_admins g n w) = restrict_fails w"
  "next_message_id (notify_admins g n w) = next_message_id w"
  by (simp_all add: notify_admins_def)

lemma add_triggered_fields [simp]:
  "outbox (add_triggered_punishment_for_user g u m w) = outbox w"
  "admins (add_triggered_punishment_for_user g u m w) = admins w"
  "punishments (add_triggered_punishment_for_user g u m w) = punishments w"
  "points (add_triggered_punishment_for_user g u m w) = points w"
  "negative_tracker (add_triggered_punishment_for_user g u m w) = negative_tracker w"
  "games (add_triggered_punishment_for_user g u m w) = games w"
  "active_tod_games (add_triggered_punishment_for_user g u m w) = active_tod_games w"
  "restrict_fails (add_triggered_punishment_for_user g u m w) = restrict_fails w"
  "next_message_id (add_triggered_punishment_for_user g u m w) = next_message_id w"
  by (simp_all add: add_triggered_punishment_for_user_def Let_def)

lemma remove_triggered_fields [simp]:
  "outbox (remove_triggered_punishment_for_user g u m w) = outbox w"
  "admins (remove_triggered_punishment_for_user g u m w) = admins w"
  "punishments (remove_triggered_punishment_for_user g u m w) = punishments w"
  "points (remove_triggered_punishment_for_user g u m w) = points w"
  "negative_tracker (remove_triggered_punishment_for_user g u m w) = negative_tracker w"
  "games (remove_triggered_punishment_for_user g u m w) = games w"
  "active_tod_games (remove_triggered_punishment_for_user g u m w) = active_tod_games w"
  "restrict_fails (remove_triggered_punishment_for_user g u m w) = restrict_fails w"
  "next_message_id (remove_triggered_punishment_for_user g u m w) = next_message_id w"
  by (simp_all add: remove_triggered_punishment_for_user_def split: option.splits)

lemma triggered_add:
  "get_triggered_punishments_for_user (add_triggered_punishment_for_user g u m w) g' u' =
     (if (g', u') = (g, u) \<and> m \<notin> set (get_triggered_punishments_for_user w g u)
      then get_triggered_punishments_for_user w g u @ [m]
      else get_triggered_punishments_for_user w g' u')"
  by (simp add: add_triggered_punishment_for_user_def get_triggered_punishments_for_user_def Let_def)

lemma triggered_remove:
  "get_triggered_punishments_for_user (remove_triggered_punishment_for_user g u m w) g' u' =
     (if (g', u') = (g, u) then remove1 m (get_triggered_punishments_for_user w g u)
      else get_triggered_punishments_for_user w g' u')"
  by (auto simp add: remove_triggered_punishment_for_user_def get_triggered_punishments_for_user_def
      remove1_idem split: option.splits)

lemma triggered_emit [simp]:
  "get_triggered_punishments_for_user (emit e w) g u = get_triggered_punishments_for_user w g u"
  "get_triggered_punishments_for_user (notify_admins g' n w) g u = get_triggered_punishments_for_user w g u"
  by (simp_all add: get_triggered_punishments_for_user_def)

lemma punishment_step_frame [simp]:
  "admins (punishment_step g u old new tr p w) = admins w"
  "punishments (punishment_step g u old new tr p w) = punishments w"
  "points (punishment_step g u old new tr p w) = points w"
  "negative_tracker (punishment_step g u old new tr p w) = negative_tracker w"
  "games (punishment_step g u old new tr p w) = games w"
  "active_tod_games (punishment_step g u old new tr p w) = active_tod_games w"
  "restrict_fails (punishment_step g u old new tr p w) = restrict_fails w"
  "next_message_id (punishment_step g u old new tr p w) = next_message_id w"
  by (simp_all add: punishment_step_def split: option.splits)

lemma punishment_loop_frame [simp]:
  "admins (punishment_loop g u old new tr ps w) = admins w"
  "punishments (punishment_loop g u old new tr ps w) = punishments w"
  "points (punishment_loop g u old new tr ps w) = points w"
  "negative_tracker (punishment_loop g u old new tr ps w) = negative_tracker w"
  "games (punishment_loop g u old new tr ps w) = games w"
  "active_tod_games (punishment_loop g u old new tr ps w) = active_tod_games w"
  "restrict_fails (punishment_loop g u old new tr ps w) = restrict_fails w"
  "next_message_id (punishment_loop g u old new tr ps w) = next_message_id w"
  by (induction ps arbitrary: w) simp_all

lemma punishment_step_outbox:
  "outbox (punishment_step g u old new tr p w) =
     outbox w @ (if rule_fires old new tr p then rule_events g u (admins w g) p else [])"
  by (simp add: punishment_step_def rule_fires_def rule_events_def split: option.splits)

lemma punishment_loop_outbox:
  "outbox (punishment_loop g u old new tr ps w) =
     outbox w @ concat (map (rule_events g u (admins w g)) (filter (rule_fires old new tr) ps))"
  by (induction ps arbitrary: w) (simp_all add: punishment_step_outbox)

lemma punishment_step_status:
  assumes "distinct (get_triggered_punishments_for_user w g u)"
  shows "distinct (get_triggered_punishments_for_user (punishment_step g u old new tr p w) g u)"
    and "m \<in> set (get_triggered_punishments_for_user (punishment_step g u old new tr p w) g u) \<longleftrightarrow>
          (m \<notin> set tr \<and> (\<exists>t. threshold p = Some t \<and> message p = Some m \<and> old \<ge> t \<and> new < t))
        \<or> (m \<in> set (get_triggered_punishments_for_user w g u)
            \<and> \<not> (m \<in> set tr \<and> (\<exists>t. threshold p = Some t \<and> message p = Some m
                                  \<and> \<not> (old \<ge> t \<and> new < t) \<and> new \<ge> t)))"
  using assms
  by (auto simp add: punishment_step_def triggered_add triggered_remove split: option.splits)

lemma punishment_loop_status:
  assumes "distinct (get_triggered_punishments_for_user w g u)"
  shows "distinct (get_triggered_punishments_for_user (punishment_loop g u old new tr ps w) g u)
    \<and> (m \<in> set (get_triggered_punishments_for_user (punishment_loop g u old new tr ps w) g u) \<longleftrightarrow>
         (m \<notin> set tr \<and> (\<exists>p\<in>set ps. \<exists>t. threshold p = Some t \<and> message p = Some m
                                  \<and> old \<ge> t \<and> new < t))
       \<or> (m \<in> set (get_triggered_punishments_for_user w g u)
           \<and> \<not> (m \<in> set tr \<and> (\<exists>p\<in>set ps. \<exists>t. threshold p = Some t \<and> message p = Some m
                                  \<and> \<not> (old \<ge> t \<and> new < t) \<and> new \<ge> t))))"
  using assms
proof (induction ps arbitrary: w)
  case Nil
  then show ?case by simp
next
  case (Cons p ps)
  let ?w1 = "punishment_step g u old new tr p w"
  have d1: "distinct (get_triggered_punishments_for_user ?w1 g u)"
    using Cons.prems by (rule punishment_step_status(1))
  note mem = punishment_step_status(2) [OF Cons.prems, of m old new tr p]
  show ?case
    using Cons.IH [OF d1] mem by (simp only: punishment_loop.simps) auto
qed


lemma count_list_concat_single:
  assumes "p \<in> set ps" and "distinct ps" and "\<forall>q\<in>set ps. q \<noteq> p \<longrightarrow> e \<notin> set (f q)"
  shows "count_list (concat (map f (filter P ps))) e = (if P p then count_list (f p) e else 0)"
  using assms
proof (induction ps)
  case Nil
  then show ?case by simp
next
  case (Cons q qs)
  show ?case
  proof (cases "q = p")
    case True
    then have "p \<notin> set qs" using Cons.prems(2) by simp
    then have "\<forall>r\<in>set qs. e \<notin> set (f r)" using Cons.prems(3) by auto
    then have "e \<notin> set (concat (map f (filter P qs)))" by auto
    then have "count_list (concat (map f (filter P qs))) e = 0" by (rule count_notin)
    with True show ?thesis by simp
  next
    case False
    then have "p \<in> set qs" using Cons.prems(1) by simp
    moreover have "e \<notin> set (f q)" using Cons.prems(3) False by simp
    then have "count_list (f q) e = 0" by (rule count_notin)
    ultimately show ?thesis using Cons.IH Cons.prems by simp
  qed
qed

lemma count_list_send_map:
  "count_list (map (\<lambda>a. SendMessage a n) as) (SendMessage b n') = (if n = n' then count_list as b else 0)"
  by (induction as) auto

lemma rule_events_issued:
  assumes "threshold p = Some t" and "message p = Some m"
  shows "count_list (rule_events g u as p) (SendMessage g (Ledger (PunishmentIssued u t m))) = 1"
    and "count_list (rule_events g u as p) (SendMessage a (Ledger (PunishmentTriggered u g m t)))
           = count_list as a"
  using assms by (simp_all add: rule_events_def count_list_send_map)

lemma rule_events_other:
  assumes "message q \<noteq> Some m"
  shows "SendMessage g (Ledger (PunishmentIssued u t m)) \<notin> set (rule_events g u as q)"
    and "SendMessage a (Ledger (PunishmentTriggered u g m t)) \<notin> set (rule_events g u as q)"
  using assms by (auto simp add: rule_events_def split: option.splits)

section \<open>Punishment rules\<close>

text \<open>
  \<open>check_for_punishment\<close> called for a change of a balance from \<open>old_points\<close> to
  \<open>new_points\<close>, and a rule of the group with threshold \<open>t\<close> and message \<open>m\<close> (messages
  are unique within a group, as \<open>addpunishment_command\<close> keeps them, and the list of
  armed messages has no duplicates, as the add helper keeps it): the rule fires, that is
  one notice goes to the group and one private notice to each administrator, exactly
  when \<open>old_points \<ge> t\<close>, \<open>new_points < t\<close> and the rule was not armed; otherwise nothing
  is sent for the rule. Afterwards the rule is armed exactly when it fired, or was armed
  and \<open>new_points < t\<close>.
\<close>

lemma check_for_punishment_crossing:
  assumes rules: "punishments w g = Some ps"
    and dm: "distinct (map message ps)"
    and dt: "distinct (get_triggered_punishments_for_user w g u)"
    and p: "p \<in> set ps" "threshold p = Some t" "message p = Some m"
  shows "let armed = (m \<in> set (get_triggered_punishments_for_user w g u));
             fires = (old_points \<ge> t \<and> new_points < t \<and> \<not> armed);
             w' = check_for_punishment g u old_points new_points w
         in count_list (outbox w') (SendMessage g (Ledger (PunishmentIssued u t m)))
              = count_list (outbox w) (SendMessage g (Ledger (PunishmentIssued u t m)))
                + (if fires then 1 else 0)
          \<and> (\<forall>a. count_list (outbox w') (SendMessage a (Ledger (PunishmentTriggered u g m t)))
              = count_list (outbox w) (SendMessage a (Ledger (PunishmentTriggered u g m t)))
                + (if fires then count_list (admins w g) a else 0))
          \<and> (m \<in> set (get_triggered_punishments_for_user w' g u) \<longleftrightarrow> fires \<or> (armed \<and> new_points < t))"
proof -
  let ?tr = "get_triggered_punishments_for_user w g u"
  let ?w' = "punishment_loop g u old_points new_points ?tr ps w"
  have w': "check_for_punishment g u old_points new_points w = ?w'"
    using rules by (simp add: check_for_punishment_def)
  have dps: "distinct ps" and inj: "inj_on message (set ps)"
    using dm by (simp_all add: distinct_map)
  have others: "\<forall>q\<in>set ps. q \<noteq> p \<longrightarrow> message q \<noteq> Some m"
  proof (intro ballI impI)
    fix q assume q: "q \<in> set ps" "q \<noteq> p"
    show "message q \<noteq> Some m"
    proof
      assume "message q = Some m"
      then have "message q = message p" using p(3) by simp
      with inj q(1) p(1) have "q = p" by (simp add: inj_on_def)
      with q(2) show False by simp
    qed
  qed
  have fires: "rule_fires old_points new_points ?tr p
                 = (old_points \<ge> t \<and> new_points < t \<and> m \<notin> set ?tr)"
    using p by (simp add: rule_fires_def)
  have issued: "count_list (outbox ?w') (SendMessage g (Ledger (PunishmentIssued u t m)))
      = count_list (outbox w) (SendMessage g (Ledger (PunishmentIssued u t m)))
        + (if old_points \<ge> t \<and> new_points < t \<and> m \<notin> set ?tr then 1 else 0)"
    using count_list_concat_single [OF p(1) dps, where f = "rule_events g u (admins w g)"
        and e = "SendMessage g (Ledger (PunishmentIssued u t m))"
        and P = "rule_fires old_points new_points ?tr"]
      others rule_events_other(1) rule_events_issued(1) [OF p(2) p(3)] fires
    by (simp add: punishment_loop_outbox)
  have admin: "count_list (outbox ?w') (SendMessage a (Ledger (PunishmentTriggered u g m t)))
      = count_list (outbox w) (SendMessage a (Ledger (PunishmentTriggered u g m t)))
        + (if old_points \<ge> t \<and> new_points < t \<and> m \<notin> set ?tr then count_list (admins w g) a else 0)"
    for a
    using count_list_concat_single [OF p(1) dps, where f = "rule_events g u (admins w g)"
        and e = "SendMessage a (Ledger (PunishmentTriggered u g m t))"
        and P = "rule_fires old_points new_points ?tr"]
      others rule_events_other(2) rule_events_issued(2) [OF p(2) p(3)] fires
    by (simp add: punishment_loop_outbox)
  have only: "(\<exists>q\<in>set ps. \<exists>t'. threshold q = Some t' \<and> message q = Some m \<and> P t') \<longleftrightarrow> P t" for P
    using p others by (metis option.inject)
  have armed: "m \<in> set (get_triggered_punishments_for_user ?w' g u) \<longleftrightarrow>
      (old_points \<ge> t \<and> new_points < t \<and> m \<notin> set ?tr) \<or> (m \<in> set ?tr \<and> new_points < t)"
    using punishment_loop_status [OF dt, where old = old_points and new = new_points
        and tr = "?tr" and ps = ps and m = m, THEN conjunct2]
    by (simp only: only) auto
  show ?thesis
    unfolding Let_def w' using issued admin armed by simp
qed

text \<open>
  The re-arming scenario of the specification on \<open>check_for_punishment\<close>, for the rule
  with threshold 0: the balance goes 50, -10, 20, -5. The rule fires on the first
  crossing, is disarmed at 20 without a notice, and fires again on the second crossing.
\<close>

lemma punishment_rearming_scenario:
  "count_list (outbox (check_for_punishment 101 1 50 (- 10) (ledger_world False)))
        (SendMessage 101 (Ledger (PunishmentIssued 1 0 ''You are grounded.''))) = 1
   \<and> get_triggered_punishments_for_user
        (check_for_punishment 101 1 (- 10) 20
          (check_for_punishment 101 1 50 (- 10) (ledger_world False))) 101 1 = []
   \<and> count_list (outbox (check_for_punishment 101 1 (- 10) 20
          (check_for_punishment 101 1 50 (- 10) (ledger_world False))))
        (SendMessage 101 (Ledger (PunishmentIssued 1 0 ''You are grounded.''))) = 1
   \<and> count_list (outbox (check_for_punishment 101 1 20 (- 5)
        (check_for_punishment 101 1 (- 10) 20
          (check_for_punishment 101 1 50 (- 10) (ledger_world False)))))
        (SendMessage 101 (Ledger (PunishmentIssued 1 0 ''You are grounded.''))) = 2"
  by (simp add: ledger_world_def check_for_punishment_def punishment_step_def
      get_triggered_punishments_for_user_def add_triggered_punishment_for_user_def
      remove_triggered_punishment_for_user_def notify_admins_def emit_def)

section \<open>Negative balances and strikes\<close>

lemma set_user_points_fields [simp]:
  "points (set_user_points g u p w) = (points w)((g, u) \<mapsto> p)"
  "outbox (set_user_points g u p w) = outbox w"
  "admins (set_user_points g u p w) = admins w"
  "punishment_status (set_user_points g u p w) = punishment_status w"
  "punishments (set_user_points g u p w) = punishments w"
  "negative_tracker (set_user_points g u p w) = negative_tracker w"
  "games (set_user_points g u p w) = games w"
  "active_tod_games (set_user_points g u p w) = active_tod_games w"
  "restrict_fails (set_user_points g u p w) = restrict_fails w"
  "next_message_id (set_user_points g u p w) = next_message_id w"
  by (simp_all add: set_user_points_def)

lemma check_for_punishment_frame [simp]:
  "admins (check_for_punishment g u old new w) = admins w"
  "punishments (check_for_punishment g u old new w) = punishments w"
  "points (check_for_punishment g u old new w) = points w"
  "negative_tracker (check_for_punishment g u old new w) = negative_tracker w"
  "games (check_for_punishment g u old new w) = games w"
  "active_tod_games (check_for_punishment g u old new w) = active_tod_games w"
  "restrict_fails (check_for_punishment g u old new w) = restrict_fails w"
  "next_message_id (check_for_punishment g u old new w) = next_message_id w"
  by (simp_all add: check_for_punishment_def split: option.splits)

lemma check_for_punishment_count:
  assumes "\<And>p. e \<notin> set (rule_events g u (admins w g) p)"
  shows "count_list (outbox (check_for_punishment g u old new w)) e = count_list (outbox w) e"
proof -
  have "e \<notin> set (concat (map (rule_events g u (admins w g)) qs))" for qs
    using assms by auto
  then have "count_list (concat (map (rule_events g u (admins w g)) qs)) e = 0" for qs
    by (rule count_notin)
  then show ?thesis
    by (simp add: check_for_punishment_def punishment_loop_outbox split: option.splits)
qed

lemma strike_events_not_rule_events:
  "RestrictChatMember g' u' d \<notin> set (rule_events g u as p)"
  "SendMessage c (Ledger (NegativeStrike u' k)) \<notin> set (rule_events g u as p)"
  "SendMessage c (Ledger (ThirdStrike u')) \<notin> set (rule_events g u as p)"
  "SendMessage c (Ledger (ThirdStrikeAdmin u' g')) \<notin> set (rule_events g u as p)"
  by (auto simp add: rule_events_def split: option.splits)

lemmas strike_counts =
  check_for_punishment_count [OF strike_events_not_rule_events(1)]
  check_for_punishment_count [OF strike_events_not_rule_events(2)]
  check_for_punishment_count [OF strike_events_not_rule_events(3)]
  check_for_punishment_count [OF strike_events_not_rule_events(4)]

text \<open>
  C3, as the code has it. \<open>add_user_points\<close> with a non-negative resulting balance sets
  the strike counter to 0. With a negative resulting balance the counter is
  incremented; a count of 1 or 2 asks the platform to mute the user for 86400 seconds
  and, when the platform accepts, resets the balance to exactly 0; when the platform
  refuses, the balance keeps its negative value. A count of 3 sends the escalated
  notice to the group and a notice to each administrator, sets the counter to 0 and
  leaves the balance as the delta made it. A counter that was not negative before is
  in [0,3) afterwards.
\<close>

theorem C3_negative_strikes:
  assumes "0 \<le> strikes w g u"
  shows "let new_points = get_user_points w g u + delta;
             c = strikes w g u;
             w' = add_user_points g u delta w
         in (new_points \<ge> 0 \<longrightarrow> strikes w' g u = 0 \<and> get_user_points w' g u = new_points)
          \<and> (new_points < 0 \<and> c + 1 < 3 \<longrightarrow>
                strikes w' g u = c + 1
              \<and> (\<not> restrict_fails w g u \<longrightarrow>
                    get_user_points w' g u = 0
                  \<and> count_list (outbox w') (RestrictChatMember g u 86400)
                      = count_list (outbox w) (RestrictChatMember g u 86400) + 1)
              \<and> (restrict_fails w g u \<longrightarrow>
                    get_user_points w' g u = new_points
                  \<and> count_list (outbox w') (RestrictChatMember g u 86400)
                      = count_list (outbox w) (RestrictChatMember g u 86400)))
          \<and> (new_points < 0 \<and> c + 1 \<ge> 3 \<longrightarrow>
                strikes w' g u = 0 \<and> get_user_points w' g u = new_points
              \<and> count_list (outbox w') (SendMessage g (Ledger (ThirdStrike u)))
                  = count_list (outbox w) (SendMessage g (Ledger (ThirdStrike u))) + 1
              \<and> (\<forall>a. count_list (outbox w') (SendMessage a (Ledger (ThirdStrikeAdmin u g)))
                  = count_list (outbox w) (SendMessage a (Ledger (ThirdStrikeAdmin u g)))
                    + count_list (admins w g) a))
          \<and> 0 \<le> strikes w' g u \<and> strikes w' g u < 3"
  using assms
  by (auto simp add: Let_def add_user_points_def check_for_negative_points_def strikes_def
      get_user_points_def strike_counts count_list_send_map split: option.splits)

theorem C3_negative_strikes_witness:
  "0 \<le> strikes (ledger_world False) 101 1
   \<and> strikes (add_user_points 101 1 (- 60) (ledger_world False)) 101 1 = 1
   \<and> get_user_points (add_user_points 101 1 (- 60) (ledger_world False)) 101 1 = 0
   \<and> count_list (outbox (add_user_points 101 1 (- 60) (ledger_world False)))
        (RestrictChatMember 101 1 86400) = 1"
proof -
  have h: "0 \<le> strikes (ledger_world False) 101 1"
    by (simp add: strikes_def ledger_world_def)
  have e: "strikes (ledger_world False) 101 1 = 0"
    "get_user_points (ledger_world False) 101 1 = 50"
    "\<not> restrict_fails (ledger_world False) 101 1"
    "outbox (ledger_world False) = []"
    by (simp_all add: strikes_def get_user_points_def ledger_world_def)
  from C3_negative_strikes [OF h, of "- 60"] show ?thesis
    using h by (simp add: Let_def e)
qed

text \<open>
  Where the platform refuses the mute, the first strike leaves the balance at -10: the
  claim that a count of 1 or 2 resets the balance to exactly 0 fails there.
\<close>

theorem C3_balance_not_reset_counterexample:
  "get_user_points (ledger_world True) 101 1 + (- 60) < 0
   \<and> strikes (add_user_points 101 1 (- 60) (ledger_world True)) 101 1 = 1
   \<and> get_user_points (add_user_points 101 1 (- 60) (ledger_world True)) 101 1 = - 10
   \<and> get_user_points (add_user_points 101 1 (- 60) (ledger_world True)) 101 1 \<noteq> 0"
  by (simp add: ledger_world_def add_user_points_def check_for_negative_points_def
      strikes_def get_user_points_def Let_def)

section \<open>Truth or dare: proof submission\<close>

lemma add_user_points_frame [simp]:
  "games (add_user_points g u d w) = games w"
  "active_tod_games (add_user_points g u d w) = active_tod_games w"
  "admins (add_user_points g u d w) = admins w"
  "punishments (add_user_points g u d w) = punishments w"
  "restrict_fails (add_user_points g u d w) = restrict_fails w"
  "next_message_id (add_user_points g u d w) = next_message_id w"
  by (simp_all add: add_user_points_def check_for_negative_points_def Let_def
      split: option.splits)

lemma add_user_points_nonneg:
  "0 \<le> get_user_points w g u + d \<Longrightarrow>
     get_user_points (add_user_points g u d w) g u = get_user_points w g u + d"
  by (simp add: add_user_points_def check_for_negative_points_def Let_def get_user_points_def
      split: option.splits)

text \<open>
  C8. When a session of the user in the group waits for proof (the handler takes the
  first such entry of the file), a message is valid proof exactly when its content
  matches the kind of the prompt. Valid proof applies the delta of 15 points through
  \<open>add_user_points\<close>, announces the completion, rewrites the original prompt message
  and deletes the session. Any other content only gets the reply that names the
  required kind of proof: the session stays in the file, still waiting for proof.
\<close>

theorem C8_tod_proof:
  assumes "List.find (awaiting_proof_of user_id chat_id) (active_tod_games w) = Some (gid, game)"
  shows "let w' = tod_handle_proof_submission user_id chat_id msg w;
             paid = add_user_points chat_id user_id 15 w
         in tod_user_id game = user_id \<and> tod_group_id game = chat_id
          \<and> tod_status game = AwaitingProof
          \<and> (proof_matches (tod_type game) msg \<longrightarrow>
                points w' = points paid \<and> negative_tracker w' = negative_tracker paid
              \<and> punishment_status w' = punishment_status paid
              \<and> (0 \<le> get_user_points w chat_id user_id + 15 \<longrightarrow>
                    get_user_points w' chat_id user_id = get_user_points w chat_id user_id + 15)
              \<and> outbox w' = outbox paid @
                   [SendMessage chat_id (Tod (TodCompleted user_id (tod_type game))),
                    EditMessageAt (tod_chat_id game) (tod_message_id game)
                      (Tod (TodCompletedPrompt (tod_type game) (tod_text game)))]
              \<and> active_tod_games w' = AList.delete gid (active_tod_games w)
              \<and> map_of (active_tod_games w') gid = None)
          \<and> (\<not> proof_matches (tod_type game) msg \<longrightarrow>
                w' = emit (ReplyText chat_id (Tod (WrongProof (tod_type game)))) w
              \<and> active_tod_games w' = active_tod_games w
              \<and> points w' = points w)"
proof -
  have f: "List.find (\<lambda>(game_id, game). tod_user_id game = user_id
             \<and> tod_group_id game = chat_id \<and> tod_status game = AwaitingProof)
             (active_tod_games w) = Some (gid, game)"
  proof -
    have "(\<lambda>(game_id, game). tod_user_id game = user_id
             \<and> tod_group_id game = chat_id \<and> tod_status game = AwaitingProof)
          = awaiting_proof_of user_id chat_id"
      by (auto simp add: fun_eq_iff awaiting_proof_of_def)
    with assms show ?thesis by simp
  qed
  have g: "awaiting_proof_of user_id chat_id (gid, game)"
    using assms by (auto simp add: find_Some_iff)
  let ?done = "(emit (EditMessageAt (tod_chat_id game) (tod_message_id game)
                     (Tod (TodCompletedPrompt (tod_type game) (tod_text game))))
                 (emit (SendMessage chat_id (Tod (TodCompleted user_id (tod_type game))))
                    (add_user_points chat_id user_id 15 w)))
               \<lparr>active_tod_games := AList.delete gid (active_tod_games w)\<rparr>"
  have h: "tod_handle_proof_submission user_id chat_id msg w =
      (if proof_matches (tod_type game) msg then ?done
       else emit (ReplyText chat_id (Tod (WrongProof (tod_type game)))) w)"
    by (cases "tod_type game")
      (simp_all add: tod_handle_proof_submission_def f Let_def proof_matches_def)
  have bal: "0 \<le> get_user_points w chat_id user_id + 15 \<Longrightarrow>
      get_user_points ?done chat_id user_id = get_user_points w chat_id user_id + 15"
    using add_user_points_nonneg [of w chat_id user_id 15]
    by (simp add: get_user_points_def)
  have gone: "map_of (AList.delete gid (active_tod_games w)) gid = None"
    by (simp add: delete_conv')
  show ?thesis
  proof (cases "proof_matches (tod_type game) msg")
    case True
    then show ?thesis
      using g bal gone unfolding Let_def h by (simp add: awaiting_proof_of_def)
  next
    case False
    then show ?thesis
      using g unfolding Let_def h by (simp add: awaiting_proof_of_def)
  qed
qed

theorem C8_tod_proof_witness:
  "List.find (awaiting_proof_of 1 101) (active_tod_games tod_world)
     = Some (''t1'', \<lparr>tod_user_id = 1, tod_group_id = 101, tod_type = Dare,
                   tod_text = ''Sing a song'', tod_message_id = 7, tod_chat_id = 101,
                   timestamp = 0, tod_status = AwaitingProof\<rparr>)
   \<and> \<not> proof_matches Dare
         \<lparr>has_photo = False, has_video = False, has_text = True, has_voice = False\<rparr>
   \<and> active_tod_games (tod_handle_proof_submission 1 101
         \<lparr>has_photo = False, has_video = False, has_text = True, has_voice = False\<rparr> tod_world)
       = active_tod_games tod_world
   \<and> outbox (tod_handle_proof_submission 1 101
         \<lparr>has_photo = False, has_video = False, has_text = True, has_voice = False\<rparr> tod_world)
       = [ReplyText 101 (Tod (WrongProof Dare))]
   \<and> proof_matches Dare
         \<lparr>has_photo = True, has_video = False, has_text = False, has_voice = False\<rparr>
   \<and> map_of (active_tod_games (tod_handle_proof_submission 1 101
         \<lparr>has_photo = True, has_video = False, has_text = False, has_voice = False\<rparr> tod_world))
         ''t1'' = None
   \<and> get_user_points (tod_handle_proof_submission 1 101
         \<lparr>has_photo = True, has_video = False, has_text = False, has_voice = False\<rparr> tod_world)
         101 1 = 65"
proof -
  let ?g = "\<lparr>tod_user_id = 1, tod_group_id = 101, tod_type = Dare,
             tod_text = ''Sing a song'', tod_message_id = 7, tod_chat_id = 101,
             timestamp = 0, tod_status = AwaitingProof\<rparr>"
  let ?text = "\<lparr>has_photo = False, has_video = False, has_text = True, has_voice = False\<rparr>"
  let ?photo = "\<lparr>has_photo = True, has_video = False, has_text = False, has_voice = False\<rparr>"
  have h: "List.find (awaiting_proof_of 1 101) (active_tod_games tod_world) = Some (''t1'', ?g)"
    by (simp add: tod_world_def awaiting_proof_of_def)
  have e: "get_user_points tod_world 101 1 = 50" "outbox tod_world = []"
    by (simp_all add: tod_world_def get_user_points_def)
  have m: "\<not> proof_matches Dare ?text" "proof_matches Dare ?photo"
    by (simp_all add: proof_matches_def)
  have r1: "tod_handle_proof_submission 1 101 ?text tod_world
              = emit (ReplyText 101 (Tod (WrongProof Dare))) tod_world"
    using C8_tod_proof [OF h, of ?text] m by (simp add: Let_def)
  have r2: "map_of (active_tod_games (tod_handle_proof_submission 1 101 ?photo tod_world))
              ''t1'' = None"
    "get_user_points (tod_handle_proof_submission 1 101 ?photo tod_world) 101 1 = 65"
    using C8_tod_proof [OF h, of ?photo] m e by (simp_all add: Let_def delete_conv')
  show ?thesis
    using h m r2 by (simp add: r1 e)
qed

section \<open>The games file: frame lemmas\<close>

lemma update_game_activity_frame [simp]:
  "points (update_game_activity k now w) = points w"
  "negative_tracker (update_game_activity k now w) = negative_tracker w"
  "punishments (update_game_activity k now w) = punishments w"
  "punishment_status (update_game_activity k now w) = punishment_status w"
  "active_tod_games (update_game_activity k now w) = active_tod_games w"
  "outbox (update_game_activity k now w) = outbox w"
  "admins (update_game_activity k now w) = admins w"
  "restrict_fails (update_game_activity k now w) = restrict_fails w"
  "next_message_id (update_game_activity k now w) = next_message_id w"
  by (simp_all add: update_game_activity_def split: option.splits)

lemma update_game_activity_lookup:
  "map_of (games (update_game_activity k now w)) k' =
     (if k' = k then map_option (\<lambda>g. g\<lparr>last_activity := now, warning_sent := False\<rparr>)
                      (map_of (games w) k)
      else map_of (games w) k')"
  by (simp add: update_game_activity_def update_conv' split: option.splits)

lemma send_and_track_message_frame [simp]:
  "points (send_and_track_message c k n w) = points w"
  "negative_tracker (send_and_track_message c k n w) = negative_tracker w"
  "punishments (send_and_track_message c k n w) = punishments w"
  "punishment_status (send_and_track_message c k n w) = punishment_status w"
  "active_tod_games (send_and_track_message c k n w) = active_tod_games w"
  "outbox (send_and_track_message c k n w) = outbox w @ [SendMessage c n]"
  "admins (send_and_track_message c k n w) = admins w"
  "restrict_fails (send_and_track_message c k n w) = restrict_fails w"
  "next_message_id (send_and_track_message c k n w) = next_message_id w + 1"
  by (simp_all add: send_and_track_message_def Let_def split: option.splits)

lemma send_and_track_message_lookup:
  "map_of (games (send_and_track_message c k n w)) k' =
     (if k' = k then map_option (\<lambda>g. g\<lparr>messages_to_delete :=
                       messages_to_delete g @ [(c, next_message_id w)]\<rparr>) (map_of (games w) k)
      else map_of (games w) k')"
  by (simp add: send_and_track_message_def Let_def update_conv' split: option.splits)

lemma find_Some_member: "List.find P xs = Some x \<Longrightarrow> x \<in> set xs \<and> P x"
  by (induction xs) (auto split: if_splits)

lemma find_dice_game_Some:
  assumes "find_dice_game gs user_id = Some (gid, game)" and "distinct (map fst gs)"
  shows "map_of gs gid = Some game" and "game_type game = Some Dice" and "status game = Active"
    and "challenger_id game = user_id \<or> opponent_id game = user_id"
proof -
  note m = find_Some_member [OF assms(1) [unfolded find_dice_game_def]]
  from m have "(gid, game) \<in> set gs" by simp
  with assms(2) show "map_of gs gid = Some game" by simp
  from m show "game_type game = Some Dice" "status game = Active"
    "challenger_id game = user_id \<or> opponent_id game = user_id"
    by simp_all
qed

section \<open>Dice rounds\<close>

text \<open>
  C10. The first line of \<open>dice_roll_handler\<close> returns unless the emoji of the die equals
  \<open>dice_emoji_literal\<close>. The emoji of a die of the game, \<open>game_die\<close>, is a different
  string, and so is every string of one code point: on such a message the handler
  changes nothing, no round is opened and no roll is stored. Only for a die whose emoji
  is the literal does the handler go on, and then, in the active dice session it finds
  for the user (who is one of its two players; the keys of the games file are
  distinct): with no opening roll stored, the roll of this user, whichever player it
  is, is stored as the opening roll; a second roll by the player who opened the round
  is answered with the notice that it is not their turn and changes neither the scores,
  nor the round number, nor the stored roll, nor any balance; and a roll by the other
  player that equals the opening roll clears the stored roll and leaves both round
  counters and the round number as they are.
\<close>

theorem C10_dice_rounds:
  assumes found: "find_dice_game (games w) user_id = Some (gid, game)"
    and keys: "distinct (map fst (games w))"
  shows "let roll = (\<lambda>emoji. dice_roll_handler (Some (emoji, val)) user_id chat_id message_id
                                now w);
             w' = roll dice_emoji_literal
         in game_die \<noteq> dice_emoji_literal
          \<and> roll game_die = w
          \<and> (\<forall>emoji. emoji \<noteq> dice_emoji_literal \<longrightarrow> roll emoji = w)
          \<and> (challenger_id game = user_id \<or> opponent_id game = user_id)
          \<and> (last_roll game = None \<longrightarrow>
               (\<exists>game'. map_of (games w') gid = Some game' \<and> same_round game game'
                  \<and> last_roll game' = Some (user_id, val)))
          \<and> (\<forall>v0. last_roll game = Some (user_id, v0) \<longrightarrow>
               (\<exists>game'. map_of (games w') gid = Some game' \<and> same_round game game'
                  \<and> last_roll game' = Some (user_id, v0))
               \<and> outbox w' = outbox w @ [SendMessage chat_id (DiceGame DiceNotYourTurn)]
               \<and> points w' = points w)
          \<and> (\<forall>p1. p1 \<noteq> user_id \<and> last_roll game = Some (p1, val) \<longrightarrow>
               (\<exists>game'. map_of (games w') gid = Some game' \<and> same_round game game'
                  \<and> last_roll game' = None)
               \<and> points w' = points w)"
proof -
  note g = find_dice_game_Some [OF found keys]
  have guard: "dice_roll_handler (Some (emoji, val)) user_id chat_id message_id now w = w"
    if "emoji \<noteq> dice_emoji_literal" for emoji
    using that by (simp add: dice_roll_handler_def)
  have die: "game_die \<noteq> dice_emoji_literal"
    by (simp add: game_die_def dice_emoji_literal_def)
  have rounds:
    "(last_roll game = None \<longrightarrow>
        (\<exists>game'. map_of (games (dice_roll_handler (Some (dice_emoji_literal, val)) user_id
                                   chat_id message_id now w)) gid = Some game'
           \<and> same_round game game' \<and> last_roll game' = Some (user_id, val)))
     \<and> (\<forall>v0. last_roll game = Some (user_id, v0) \<longrightarrow>
          (\<exists>game'. map_of (games (dice_roll_handler (Some (dice_emoji_literal, val)) user_id
                                     chat_id message_id now w)) gid = Some game'
             \<and> same_round game game' \<and> last_roll game' = Some (user_id, v0))
          \<and> outbox (dice_roll_handler (Some (dice_emoji_literal, val)) user_id chat_id
                       message_id now w)
              = outbox w @ [SendMessage chat_id (DiceGame DiceNotYourTurn)]
          \<and> points (dice_roll_handler (Some (dice_emoji_literal, val)) user_id chat_id
                       message_id now w) = points w)
     \<and> (\<forall>p1. p1 \<noteq> user_id \<and> last_roll game = Some (p1, val) \<longrightarrow>
          (\<exists>game'. map_of (games (dice_roll_handler (Some (dice_emoji_literal, val)) user_id
                                     chat_id message_id now w)) gid = Some game'
             \<and> same_round game game' \<and> last_roll game' = None)
          \<and> points (dice_roll_handler (Some (dice_emoji_literal, val)) user_id chat_id
                       message_id now w) = points w)"
    unfolding Let_def dice_roll_handler_def found
    using g
    by (auto simp add: same_round_def update_conv' send_and_track_message_lookup
        update_game_activity_lookup)
  show ?thesis
    unfolding Let_def using guard guard [OF die] die g(4) rounds by simp
qed

theorem C10_dice_rounds_witness:
  "find_dice_game (games (dice_world None)) 2 = Some (''d1'', dice_game None)
   \<and> distinct (map fst (games (dice_world None)))
   \<and> last_roll (dice_game None) = None
   \<and> dice_roll_handler (Some (game_die, 4)) 2 101 55 10 (dice_world None) = dice_world None
   \<and> (\<exists>game'. map_of (games (dice_roll_handler (Some (dice_emoji_literal, 4)) 2 101 55 10
                                (dice_world None))) ''d1'' = Some game'
          \<and> same_round (dice_game None) game' \<and> last_roll game' = Some (2, 4))"
proof -
  have h: "find_dice_game (games (dice_world None)) 2 = Some (''d1'', dice_game None)"
    by (simp add: find_dice_game_def dice_world_def dice_game_def fresh_game_def)
  have k: "distinct (map fst (games (dice_world None)))"
    by (simp add: dice_world_def)
  have l: "last_roll (dice_game None) = None"
    by (simp add: dice_game_def)
  from C10_dice_rounds [OF h k, of 4 101 55 10] h k l show ?thesis
    by (simp add: Let_def)
qed

section \<open>Rejected moves\<close>

text \<open>
  C6, as the code has it. Both move handlers first acknowledge the press and call
  \<open>update_game_activity\<close>, and only then look at the session. For a stored session
  that is not active, or whose turn is not the acting user's, the move is rejected: the
  session keeps its board, turn, status, stakes and every other field except that
  \<open>last_activity\<close> becomes the time of the attempt and the warning flag is cleared; no
  balance, strike counter or punishment status changes. A wrong turn is answered with an
  alert to the acting user; a session that is not active is answered by rewriting the
  text of the message that carries the board.
\<close>

theorem C6_rejected_move:
  assumes stored: "map_of (games w) game_id = Some game"
    and rejected: "status game \<noteq> Active \<or> turn game \<noteq> Some user_id"
  shows "let w4 = connect_four_move_handler game_id col user_id now w;
             w3 = tictactoe_move_handler game_id r c user_id now w;
             touched = game\<lparr>last_activity := now, warning_sent := False\<rparr>;
             told = (if status game \<noteq> Active then EditQueryMessage (Move NoLongerActive)
                     else AnswerAlert user_id (Move NotYourTurn))
         in games w4 = AList.update game_id touched (games w)
          \<and> games w3 = AList.update game_id touched (games w)
          \<and> points w4 = points w \<and> negative_tracker w4 = negative_tracker w
          \<and> punishment_status w4 = punishment_status w
          \<and> points w3 = points w \<and> negative_tracker w3 = negative_tracker w
          \<and> punishment_status w3 = punishment_status w
          \<and> outbox w4 = outbox w @ [AnswerQuery user_id, told]
          \<and> outbox w3 = outbox w @ [AnswerQuery user_id, told]"
  using assms
  by (auto simp add: Let_def connect_four_move_handler_def tictactoe_move_handler_def
      update_game_activity_def update_conv')

lemma c4_game_fields:
  "status c4_game = Active" "turn c4_game = Some 2" "challenger_id c4_game = 1"
  "opponent_id c4_game = 2" "group_id c4_game = 101" "last_activity c4_game = 0"
  "warning_sent c4_game"
  "board c4_game = [[2, 1, 2, 0, 1, 2, 1],
                    [1, 2, 1, 1, 1, 2, 2],
                    [2, 1, 2, 2, 2, 1, 1],
                    [1, 2, 2, 1, 1, 1, 2],
                    [2, 1, 1, 1, 2, 2, 2],
                    [2, 1, 2, 2, 1, 1, 1]]"
  by (simp_all add: c4_game_def fresh_game_def)

lemma board_world_fields:
  "games (board_world k g) = [(k, g)]" "outbox (board_world k g) = []"
  "points (board_world k g) = [(101, 1) \<mapsto> 50, (101, 2) \<mapsto> 50]"
  "negative_tracker (board_world k g) = Map.empty"
  "punishment_status (board_world k g) = Map.empty"
  "punishments (board_world k g) = Map.empty"
  by (simp_all add: board_world_def)

theorem C6_rejected_move_witness:
  "map_of (games (board_world ''c1'' c4_game)) ''c1'' = Some c4_game
   \<and> status c4_game = Active \<and> turn c4_game \<noteq> Some 1
   \<and> games (connect_four_move_handler ''c1'' 3 1 50 (board_world ''c1'' c4_game))
       = [(''c1'', c4_game\<lparr>last_activity := 50, warning_sent := False\<rparr>)]
   \<and> points (connect_four_move_handler ''c1'' 3 1 50 (board_world ''c1'' c4_game))
       = points (board_world ''c1'' c4_game)
   \<and> outbox (connect_four_move_handler ''c1'' 3 1 50 (board_world ''c1'' c4_game))
       = [AnswerQuery 1, AnswerAlert 1 (Move NotYourTurn)]"
proof -
  have h1: "map_of (games (board_world ''c1'' c4_game)) ''c1'' = Some c4_game"
    by (simp add: board_world_fields)
  have h2: "status c4_game \<noteq> Active \<or> turn c4_game \<noteq> Some 1"
    by (simp add: c4_game_fields)
  from C6_rejected_move [OF h1 h2, of 3 50 0 0] h1 show ?thesis
    by (simp add: Let_def board_world_fields c4_game_fields)
qed

text \<open>
  The challenger presses a column while it is the opponent's turn: the stored session
  changes, its \<open>last_activity\<close> goes from 0 to 50 and its warning flag is cleared.
\<close>

theorem C6_activity_refreshed_counterexample:
  "map_of (games (board_world ''c1'' c4_game)) ''c1'' = Some c4_game
   \<and> status c4_game = Active \<and> turn c4_game \<noteq> Some 1
   \<and> last_activity c4_game = 0 \<and> warning_sent c4_game
   \<and> map_option last_activity
        (map_of (games (connect_four_move_handler ''c1'' 3 1 50 (board_world ''c1'' c4_game)))
           ''c1'') = Some 50
   \<and> map_option warning_sent
        (map_of (games (connect_four_move_handler ''c1'' 3 1 50 (board_world ''c1'' c4_game)))
           ''c1'') = Some False
   \<and> games (connect_four_move_handler ''c1'' 3 1 50 (board_world ''c1'' c4_game))
       \<noteq> games (board_world ''c1'' c4_game)"
proof -
  have g: "games (connect_four_move_handler ''c1'' 3 1 50 (board_world ''c1'' c4_game))
             = [(''c1'', c4_game\<lparr>last_activity := 50, warning_sent := False\<rparr>)]"
    by (simp add: connect_four_move_handler_def update_game_activity_def Let_def
        board_world_fields c4_game_fields)
  have ne: "c4_game\<lparr>last_activity := 50, warning_sent := False\<rparr> \<noteq> c4_game"
  proof
    assume "c4_game\<lparr>last_activity := 50, warning_sent := False\<rparr> = c4_game"
    then have "last_activity (c4_game\<lparr>last_activity := 50, warning_sent := False\<rparr>)
                 = last_activity c4_game" by simp
    then show False by (simp add: c4_game_fields)
  qed
  show ?thesis
    using ne by (simp add: g board_world_fields c4_game_fields)
qed

section \<open>Draws\<close>

lemma ttt_game_fields:
  "status ttt_game = Active" "turn ttt_game = Some 1" "challenger_id ttt_game = 1"
  "opponent_id ttt_game = 2" "group_id ttt_game = 101"
  "challenger_stake ttt_game = Some (Points 10)" "opponent_stake ttt_game = Some (Points 20)"
  "messages_to_delete ttt_game = []" "game_type ttt_game = Some TicTacToe"
  "board ttt_game = [[1, 2, 1], [1, 2, 2], [2, 1, 0]]"
  by (simp_all add: ttt_game_def fresh_game_def)

lemma c4_last_move:
  "drop_piece [[2, 1, 2, 0, 1, 2, 1],
               [1, 2, 1, 1, 1, 2, 2],
               [2, 1, 2, 2, 2, 1, 1],
               [1, 2, 2, 1, 1, 1, 2],
               [2, 1, 1, 1, 2, 2, 2],
               [2, 1, 2, 2, 1, 1, 1]] 3 2
     = Some [[2, 1, 2, 2, 1, 2, 1],
             [1, 2, 1, 1, 1, 2, 2],
             [2, 1, 2, 2, 2, 1, 1],
             [1, 2, 2, 1, 1, 1, 2],
             [2, 1, 1, 1, 2, 2, 2],
             [2, 1, 2, 2, 1, 1, 1]]"
  by code_simp

lemma c4_full_board_is_draw:
  "\<not> check_connect_four_win [[2, 1, 2, 2, 1, 2, 1],
             [1, 2, 1, 1, 1, 2, 2],
             [2, 1, 2, 2, 2, 1, 1],
             [1, 2, 2, 1, 1, 1, 2],
             [2, 1, 1, 1, 2, 2, 2],
             [2, 1, 2, 2, 1, 1, 1]] 2"
  "check_connect_four_draw [[2, 1, 2, 2, 1, 2, 1],
             [1, 2, 1, 1, 1, 2, 2],
             [2, 1, 2, 2, 2, 1, 1],
             [1, 2, 2, 1, 1, 1, 2],
             [2, 1, 1, 1, 2, 2, 2],
             [2, 1, 2, 2, 1, 1, 1]]"
  by code_simp+

lemma ttt_full_board_is_draw:
  "\<not> check_tictactoe_win [[1, 2, 1], [1, 2, 2], [2, 1, 1]] 1"
  "check_tictactoe_draw [[1, 2, 1], [1, 2, 2], [2, 1, 1]]"
  by code_simp+

lemma delete_tracked_messages_frame [simp]:
  "points (delete_tracked_messages k w) = points w"
  "negative_tracker (delete_tracked_messages k w) = negative_tracker w"
  "punishments (delete_tracked_messages k w) = punishments w"
  "punishment_status (delete_tracked_messages k w) = punishment_status w"
  "active_tod_games (delete_tracked_messages k w) = active_tod_games w"
  "admins (delete_tracked_messages k w) = admins w"
  "restrict_fails (delete_tracked_messages k w) = restrict_fails w"
  "next_message_id (delete_tracked_messages k w) = next_message_id w"
  by (simp_all add: delete_tracked_messages_def split: option.splits)

lemma delete_tracked_messages_lookup:
  "map_of (games (delete_tracked_messages k w)) k' =
     (if k' = k then map_option (\<lambda>g. g\<lparr>messages_to_delete := []\<rparr>) (map_of (games w) k)
      else map_of (games w) k')"
  by (simp add: delete_tracked_messages_def update_conv' split: option.splits)

lemma lose_stake_in_draw_frame [simp]:
  "games (lose_stake_in_draw g u st w) = games w"
  "active_tod_games (lose_stake_in_draw g u st w) = active_tod_games w"
  "admins (lose_stake_in_draw g u st w) = admins w"
  "punishments (lose_stake_in_draw g u st w) = punishments w"
  "restrict_fails (lose_stake_in_draw g u st w) = restrict_fails w"
  "next_message_id (lose_stake_in_draw g u st w) = next_message_id w"
  by (simp_all add: lose_stake_in_draw_def split: option.splits stake.splits)

lemma handle_game_draw_stored:
  assumes "map_of (games w) k = Some game"
  shows "map_of (games (handle_game_draw k w)) k
           = Some (game\<lparr>status := Complete, messages_to_delete := []\<rparr>)"
    and "points (handle_game_draw k w)
           = points (lose_stake_in_draw (group_id game) (opponent_id game) (opponent_stake game)
               (lose_stake_in_draw (group_id game) (challenger_id game) (challenger_stake game)
                 (emit (SendMessage (group_id game)
                    (Settlement (DrawAnnounced (challenger_id game) (opponent_id game)))) w)))"
  using assms
  by (simp_all add: handle_game_draw_def Let_def delete_tracked_messages_lookup update_conv')

text \<open>
  C1 at a concrete draw. The opponent fills the last cell of the connect-four board
  (column 3): nobody has four in a row, the top row is full, and the handler marks the
  session complete without calling \<open>handle_game_draw\<close>: both balances stay at 50
  although 10 points were staked by each player, and nothing is sent but the edited
  board. The tic-tac-toe handler, on its draw, calls \<open>handle_game_draw\<close>: the
  challenger's 10 and the opponent's 20 staked points are deducted.
\<close>

theorem C1_connect_four_draw_not_settled:
  "challenger_stake c4_game = Some (Points 10) \<and> opponent_stake c4_game = Some (Points 10)
   \<and> map_option status
        (map_of (games (connect_four_move_handler ''c1'' 3 2 50 (board_world ''c1'' c4_game)))
           ''c1'') = Some Complete
   \<and> points (connect_four_move_handler ''c1'' 3 2 50 (board_world ''c1'' c4_game))
       = points (board_world ''c1'' c4_game)
   \<and> outbox (connect_four_move_handler ''c1'' 3 2 50 (board_world ''c1'' c4_game))
       = [AnswerQuery 2,
          EditQueryMessage (Move (ConnectFourDraw
            [[2, 1, 2, 2, 1, 2, 1],
             [1, 2, 1, 1, 1, 2, 2],
             [2, 1, 2, 2, 2, 1, 1],
             [1, 2, 2, 1, 1, 1, 2],
             [2, 1, 1, 1, 2, 2, 2],
             [2, 1, 2, 2, 1, 1, 1]]))]
   \<and> map_option status
        (map_of (games (tictactoe_move_handler ''t1'' 2 2 1 50 (board_world ''t1'' ttt_game)))
           ''t1'') = Some Complete
   \<and> get_user_points (tictactoe_move_handler ''t1'' 2 2 1 50 (board_world ''t1'' ttt_game))
        101 1 = 40
   \<and> get_user_points (tictactoe_move_handler ''t1'' 2 2 1 50 (board_world ''t1'' ttt_game))
        101 2 = 30"
proof -
  have st: "challenger_stake c4_game = Some (Points 10)"
    "opponent_stake c4_game = Some (Points 10)"
    by (simp_all add: c4_game_def fresh_game_def)
  have c4: "connect_four_move_handler ''c1'' 3 2 50 (board_world ''c1'' c4_game)
      = (emit (EditQueryMessage (Move (ConnectFourDraw
            [[2, 1, 2, 2, 1, 2, 1],
             [1, 2, 1, 1, 1, 2, 2],
             [2, 1, 2, 2, 2, 1, 1],
             [1, 2, 2, 1, 1, 1, 2],
             [2, 1, 1, 1, 2, 2, 2],
             [2, 1, 2, 2, 1, 1, 1]])))
          (update_game_activity ''c1'' 50 (emit (AnswerQuery 2) (board_world ''c1'' c4_game))))
        \<lparr>games := [(''c1'', c4_game\<lparr>last_activity := 50, warning_sent := False,
             board := [[2, 1, 2, 2, 1, 2, 1],
             [1, 2, 1, 1, 1, 2, 2],
             [2, 1, 2, 2, 2, 1, 1],
             [1, 2, 2, 1, 1, 1, 2],
             [2, 1, 1, 1, 2, 2, 2],
             [2, 1, 2, 2, 1, 1, 1]], status := Complete\<rparr>)]\<rparr>"
    by (simp add: connect_four_move_handler_def update_game_activity_def Let_def
        board_world_fields c4_game_fields c4_last_move c4_full_board_is_draw)
  have ttt: "tictactoe_move_handler ''t1'' 2 2 1 50 (board_world ''t1'' ttt_game)
      = handle_game_draw ''t1''
          (emit (EditQueryMessage (Move (TicTacToeDraw [[1, 2, 1], [1, 2, 2], [2, 1, 1]])))
            (update_game_activity ''t1'' 50 (emit (AnswerQuery 1) (board_world ''t1'' ttt_game))))"
    by (simp add: tictactoe_move_handler_def update_game_activity_def Let_def
        board_world_fields ttt_game_fields ttt_full_board_is_draw)
  let ?w = "emit (EditQueryMessage (Move (TicTacToeDraw [[1, 2, 1], [1, 2, 2], [2, 1, 1]])))
            (update_game_activity ''t1'' 50 (emit (AnswerQuery 1) (board_world ''t1'' ttt_game)))"
  let ?g = "ttt_game\<lparr>last_activity := 50, warning_sent := False\<rparr>"
  have gw: "map_of (games ?w) ''t1'' = Some ?g"
    by (simp add: update_game_activity_lookup board_world_fields)
  have t_status: "map_option status (map_of (games (handle_game_draw ''t1'' ?w)) ''t1'')
      = Some Complete"
    by (simp add: handle_game_draw_stored(1) [OF gw])
  have t_points: "get_user_points (handle_game_draw ''t1'' ?w) 101 1 = 40
      \<and> get_user_points (handle_game_draw ''t1'' ?w) 101 2 = 30"
    by (simp add: get_user_points_def handle_game_draw_stored(2) [OF gw] ttt_game_fields
        lose_stake_in_draw_def add_user_points_def check_for_negative_points_def
        check_for_punishment_def Let_def board_world_fields)
  show ?thesis
    using st t_status t_points
    by (simp add: c4 ttt update_game_activity_def board_world_fields)
qed

section \<open>Creating sessions keeps one open session per group\<close>

lemma group_has_open_game_iff: "group_has_open_game gs g \<longleftrightarrow> open_games gs g \<noteq> []"
  by (induction gs) (auto simp add: group_has_open_game_def open_games_def)

lemma update_fresh_key: "k \<notin> fst ` set gs \<Longrightarrow> AList.update k v gs = gs @ [(k, v)]"
  by (induction gs) auto

lemma open_games_update_same:
  assumes "map_of gs k = Some game" and "group_id game' = group_id game"
    and "status game' = status game"
  shows "length (open_games (AList.update k game' gs) g) = length (open_games gs g)"
  using assms by (induction gs) (auto simp add: open_games_def)

lemma open_games_send_and_track:
  "length (open_games (games (send_and_track_message c k n w)) g)
     = length (open_games (games w) g)"
  by (auto simp add: send_and_track_message_def Let_def open_games_update_same
      split: option.splits)

lemma open_games_append:
  "open_games (gs @ [(k, game)]) g =
     open_games gs g @ (if group_id game = g \<and> status game \<noteq> Complete then [(k, game)] else [])"
  by (simp add: open_games_def)

lemma fresh_game_fields [simp]:
  "group_id (fresh_game g c opp now) = g" "status (fresh_game g c opp now) = PendingGameSelection"
  by (simp_all add: fresh_game_def)

lemma newgame_command_games:
  "length (open_games (games (newgame_command in_group replied_to challenger bot_id g new_id now w)) g')
     = (if valid_challenge in_group replied_to challenger bot_id
           \<and> \<not> group_has_open_game (games w) g
        then length (open_games (AList.update new_id
               (fresh_game g challenger (the replied_to) now) (games w)) g')
        else length (open_games (games w) g'))"
  by (auto simp add: newgame_command_def valid_challenge_def Let_def open_games_send_and_track
      split: option.splits)

lemma newgame_command_conflict:
  assumes "group_has_open_game (games w) g"
  shows "games (newgame_command in_group replied_to challenger bot_id g new_id now w) = games w"
  using assms by (auto simp add: newgame_command_def Let_def split: option.splits)

lemma newgame_command_conflict_reported:
  assumes "group_has_open_game (games w) g"
    and "valid_challenge in_group replied_to challenger bot_id"
  shows "newgame_command in_group replied_to challenger bot_id g new_id now w
           = emit (ReplyText g (Challenge AlreadyActiveGame)) w"
  using assms
  by (auto simp add: newgame_command_def valid_challenge_def Let_def split: option.splits)

lemma single_active_add:
  assumes "single_active gs" and "k \<notin> fst ` set gs" and "\<not> group_has_open_game gs (group_id game)"
  shows "single_active (AList.update k game gs)"
  using assms
  by (auto simp add: single_active_def update_fresh_key open_games_append
      group_has_open_game_iff)


lemma revenge_handler_games:
  "length (open_games (games (revenge_handler old_id user_id new_id now w)) g')
     = (if revenge_allowed (games w) old_id user_id
           \<and> \<not> group_has_open_game (games w) (group_id (the (map_of (games w) old_id)))
        then length (open_games (AList.update new_id
               ((fresh_game (group_id (the (map_of (games w) old_id)))
                   (the (loser_id (the (map_of (games w) old_id))))
                   (the (winner_id (the (map_of (games w) old_id)))) now)
                \<lparr>is_revenge := True, old_game_id := Some old_id\<rparr>) (games w)) g')
        else length (open_games (games w) g'))"
  by (auto simp add: revenge_handler_def revenge_allowed_def Let_def open_games_send_and_track
      split: option.splits)

lemma revenge_handler_conflict:
  assumes "map_of (games w) old_id = Some old_game"
    and "group_has_open_game (games w) (group_id old_game)"
  shows "games (revenge_handler old_id user_id new_id now w) = games w"
    and "revenge_allowed (games w) old_id user_id \<Longrightarrow>
         revenge_handler old_id user_id new_id now w
           = emit (SendMessage (group_id old_game) (Challenge AlreadyActiveGameRevenge))
               (emit (AnswerQuery user_id) w)"
  using assms
  by (auto simp add: revenge_handler_def revenge_allowed_def Let_def split: option.splits)

text \<open>
  C9. With distinct session identifiers (\<open>new_id\<close>, from \<open>uuid4\<close>, is not a key of the
  file), \<open>newgame_command\<close> and \<open>revenge_handler\<close> keep the invariant that every group
  has at most one session that is not complete. When the group already has such a
  session they leave the games file as it is and report the conflict. So after a valid
  challenge in a group without an open session, the group has exactly one, and it still
  has exactly one after any second challenge in the same group.
\<close>

theorem C9_single_active_session:
  assumes inv: "single_active (games w)"
    and fresh: "new_id \<notin> fst ` set (games w)"
  shows "let w1 = newgame_command in_group replied_to challenger bot_id g new_id now w;
             w2 = revenge_handler old_id user_id new_id now w
         in single_active (games w1) \<and> single_active (games w2)
          \<and> (group_has_open_game (games w) g \<longrightarrow>
                games w1 = games w
              \<and> (valid_challenge in_group replied_to challenger bot_id \<longrightarrow>
                    w1 = emit (ReplyText g (Challenge AlreadyActiveGame)) w))
          \<and> (\<forall>old_game. map_of (games w) old_id = Some old_game
                \<and> group_has_open_game (games w) (group_id old_game) \<longrightarrow>
                games w2 = games w
              \<and> (revenge_allowed (games w) old_id user_id \<longrightarrow>
                    w2 = emit (SendMessage (group_id old_game) (Challenge AlreadyActiveGameRevenge))
                           (emit (AnswerQuery user_id) w)))
          \<and> (valid_challenge in_group replied_to challenger bot_id
                \<and> \<not> group_has_open_game (games w) g \<longrightarrow>
                length (open_games (games w1) g) = 1
              \<and> (\<forall>in_group' replied_to' challenger' id' now'.
                    length (open_games (games
                      (newgame_command in_group' replied_to' challenger' bot_id g id' now' w1)) g)
                    = 1))"
proof -
  let ?w1 = "newgame_command in_group replied_to challenger bot_id g new_id now w"
  let ?w2 = "revenge_handler old_id user_id new_id now w"
  have s1: "single_active (games ?w1)"
  proof (cases "valid_challenge in_group replied_to challenger bot_id
                 \<and> \<not> group_has_open_game (games w) g")
    case True
    then have "single_active (AList.update new_id
                 (fresh_game g challenger (the replied_to) now) (games w))"
      using single_active_add [OF inv fresh] by simp
    then show ?thesis
      using True by (simp add: single_active_def newgame_command_games)
  next
    case False
    then show ?thesis
      using inv by (auto simp add: single_active_def newgame_command_games)
  qed
  have s2: "single_active (games ?w2)"
  proof (cases "revenge_allowed (games w) old_id user_id
                 \<and> \<not> group_has_open_game (games w) (group_id (the (map_of (games w) old_id)))")
    case True
    then have "single_active (AList.update new_id
        ((fresh_game (group_id (the (map_of (games w) old_id)))
            (the (loser_id (the (map_of (games w) old_id))))
            (the (winner_id (the (map_of (games w) old_id)))) now)
         \<lparr>is_revenge := True, old_game_id := Some old_id\<rparr>) (games w))"
      using single_active_add [OF inv fresh] by simp
    then show ?thesis
      using True by (simp add: single_active_def revenge_handler_games)
  next
    case False
    then show ?thesis
      using inv by (auto simp add: single_active_def revenge_handler_games)
  qed
  have c1: "group_has_open_game (games w) g \<Longrightarrow> games ?w1 = games w
      \<and> (valid_challenge in_group replied_to challenger bot_id \<longrightarrow>
            ?w1 = emit (ReplyText g (Challenge AlreadyActiveGame)) w)"
    using newgame_command_conflict newgame_command_conflict_reported by simp
  have c2: "map_of (games w) old_id = Some old_game
      \<and> group_has_open_game (games w) (group_id old_game) \<longrightarrow>
        games ?w2 = games w
      \<and> (revenge_allowed (games w) old_id user_id \<longrightarrow>
            ?w2 = emit (SendMessage (group_id old_game) (Challenge AlreadyActiveGameRevenge))
                    (emit (AnswerQuery user_id) w))" for old_game
    using revenge_handler_conflict by blast
  have two: "length (open_games (games ?w1) g) = 1
      \<and> (\<forall>in_group' replied_to' challenger' id' now'.
            length (open_games (games
              (newgame_command in_group' replied_to' challenger' bot_id g id' now' ?w1)) g) = 1)"
    if v: "valid_challenge in_group replied_to challenger bot_id"
      and nb: "\<not> group_has_open_game (games w) g"
  proof -
    have "open_games (games w) g = []"
      using nb by (simp add: group_has_open_game_iff)
    then have one: "length (open_games (games ?w1) g) = 1"
      using v nb fresh
      by (simp add: newgame_command_games update_fresh_key open_games_append)
    then have busy: "group_has_open_game (games ?w1) g"
      by (auto simp add: group_has_open_game_iff)
    show ?thesis
      using one newgame_command_conflict [OF busy] by simp
  qed
  show ?thesis
    unfolding Let_def using s1 s2 c1 c2 two by blast
qed

theorem C9_single_active_session_witness:
  "single_active (games (ledger_world False))
   \<and> ''g1'' \<notin> fst ` set (games (ledger_world False))
   \<and> single_active (games (newgame_command True (Some 2) 1 999 101 ''g1'' 0 (ledger_world False)))
   \<and> length (open_games
         (games (newgame_command True (Some 2) 1 999 101 ''g1'' 0 (ledger_world False))) 101) = 1
   \<and> length (open_games
         (games (newgame_command True (Some 3) 4 999 101 ''g2'' 5
            (newgame_command True (Some 2) 1 999 101 ''g1'' 0 (ledger_world False)))) 101) = 1"
proof -
  have g: "games (ledger_world False) = []"
    by (simp add: ledger_world_def)
  have h1: "single_active (games (ledger_world False))"
    by (simp add: g single_active_def open_games_def)
  have h2: "''g1'' \<notin> fst ` set (games (ledger_world False))"
    by (simp add: g)
  have v: "valid_challenge True (Some 2) 1 999" "\<not> group_has_open_game [] 101"
    by (simp_all add: valid_challenge_def group_has_open_game_def)
  from C9_single_active_session [OF h1 h2, of True "Some 2" 1 999 101 0]
  show ?thesis
    using h1 h2 v by (simp add: Let_def g)
qed

lemma punishment_step_ledger:
  assumes "ledger w1 = ledger w2"
  shows "ledger (punishment_step g u old new tr p w1) = ledger (punishment_step g u old new tr p w2)"
  using assms
  by (auto simp add: ledger_def punishment_step_def add_triggered_punishment_for_user_def
      remove_triggered_punishment_for_user_def get_triggered_punishments_for_user_def
      notify_admins_def emit_def Let_def split: option.splits)

lemma punishment_loop_ledger:
  assumes "ledger w1 = ledger w2"
  shows "ledger (punishment_loop g u old new tr ps w1) = ledger (punishment_loop g u old new tr ps w2)"
  using assms
proof (induction ps arbitrary: w1 w2)
  case Nil
  then show ?case by simp
next
  case (Cons p ps)
  show ?case
    by (simp only: punishment_loop.simps) (rule Cons.IH, rule punishment_step_ledger, rule Cons.prems)
qed

lemma check_for_punishment_ledger:
  assumes "ledger w1 = ledger w2" and "punishments w1 = punishments w2"
  shows "ledger (check_for_punishment g u old new w1) = ledger (check_for_punishment g u old new w2)"
proof -
  have tr: "get_triggered_punishments_for_user w1 g u = get_triggered_punishments_for_user w2 g u"
    using assms(1) by (simp add: ledger_def get_triggered_punishments_for_user_def)
  show ?thesis
    using assms punishment_loop_ledger [OF assms(1)]
    by (simp add: check_for_punishment_def tr split: option.splits)
qed

lemma check_for_negative_points_ledger:
  assumes "ledger w1 = ledger w2" and "restrict_fails w1 = restrict_fails w2"
  shows "ledger (check_for_negative_points g u p w1) = ledger (check_for_negative_points g u p w2)"
  using assms
  by (simp add: ledger_def check_for_negative_points_def strikes_def notify_admins_def
      emit_def set_user_points_def Let_def)

lemma add_user_points_ledger:
  assumes "ledger w1 = ledger w2" and "same_rules w1 w2"
  shows "ledger (add_user_points g u d w1) = ledger (add_user_points g u d w2)"
    and "same_rules (add_user_points g u d w1) (add_user_points g u d w2)"
proof -
  have p: "get_user_points w1 g u = get_user_points w2 g u"
    using assms(1) by (simp add: ledger_def get_user_points_def)
  let ?new = "get_user_points w2 g u + d"
  let ?a = "\<lambda>w. (if ?new \<ge> 0 then
                  (case negative_tracker (set_user_points g u ?new w) (g, u) of
                     None \<Rightarrow> set_user_points g u ?new w
                   | Some c \<Rightarrow>
                       if c \<noteq> 0 then (set_user_points g u ?new w)
                         \<lparr>negative_tracker :=
                            (negative_tracker (set_user_points g u ?new w))((g, u) \<mapsto> 0)\<rparr>
                       else set_user_points g u ?new w)
                else set_user_points g u ?new w)"
  have a: "ledger (?a w1) = ledger (?a w2)" "punishments (?a w1) = punishments (?a w2)"
    "restrict_fails (?a w1) = restrict_fails (?a w2)"
    using assms by (auto simp add: ledger_def same_rules_def split: option.splits)
  have b: "ledger (check_for_punishment g u (get_user_points w2 g u) ?new (?a w1))
         = ledger (check_for_punishment g u (get_user_points w2 g u) ?new (?a w2))"
    using a(1) a(2) by (rule check_for_punishment_ledger)
  have c: "restrict_fails (check_for_punishment g u (get_user_points w2 g u) ?new (?a w1))
         = restrict_fails (check_for_punishment g u (get_user_points w2 g u) ?new (?a w2))"
    using a by simp
  show "ledger (add_user_points g u d w1) = ledger (add_user_points g u d w2)"
    unfolding add_user_points_def Let_def p
    using check_for_negative_points_ledger [OF b c] by simp
  show "same_rules (add_user_points g u d w1) (add_user_points g u d w2)"
    using assms(2) by (simp add: same_rules_def)
qed

lemma ledger_frame [simp]:
  "ledger (emit e w) = ledger w"
  "ledger (update_game_activity k now w) = ledger w"
  "ledger (w\<lparr>games := gs\<rparr>) = ledger w"
  "ledger (w\<lparr>outbox := ob\<rparr>) = ledger w"
  "ledger (send_and_track_message c k n w) = ledger w"
  "ledger (delete_tracked_messages k w) = ledger w"
  by (simp_all add: ledger_def)

lemma same_rules_frame [simp]:
  "same_rules (emit e w) w'= same_rules w w'"
  "same_rules (update_game_activity k now w) w' = same_rules w w'"
  "same_rules (w\<lparr>games := gs\<rparr>) w' = same_rules w w'"
  "same_rules (send_and_track_message c k n w) w' = same_rules w w'"
  "same_rules (delete_tracked_messages k w) w' = same_rules w w'"
  "same_rules w w"
  by (simp_all add: same_rules_def)

lemma ledger_balance: "ledger w1 = ledger w2 \<Longrightarrow> get_user_points w1 g u = get_user_points w2 g u"
  by (simp add: ledger_def get_user_points_def)

lemma refuse_plain_points:
  assumes "map_of (games w) game_id = Some game" and "user_id = opponent_id game"
    and "\<not> is_revenge game" and "challenger_stake game = Some (Points v)"
  shows "map_of (games (challenge_response_handler Refuse game_id user_id now w)) game_id = None"
    and "ledger (challenge_response_handler Refuse game_id user_id now w)
           = ledger (add_user_points (group_id game) (challenger_id game) (- v) w)"
proof -
  let ?wa = "update_game_activity game_id now (emit (AnswerQuery user_id) w)"
  let ?w1 = "emit (SendMessage (challenger_id game) (Response (YourChallengeRefused user_id))) ?wa"
  have h: "challenge_response_handler Refuse game_id user_id now w
      = emit (EditQueryMessage (Response ChallengeRefused))
          ((emit (SendMessage (group_id game)
                    (Response (RefusedLoserPoints (challenger_id game) v)))
              (add_user_points (group_id game) (challenger_id game) (- v) ?w1))
           \<lparr>games := AList.delete game_id (games ?wa)\<rparr>)"
    using assms
    by (simp add: challenge_response_handler_def Let_def update_game_activity_lookup)
  show "map_of (games (challenge_response_handler Refuse game_id user_id now w)) game_id = None"
    by (simp add: h delete_conv')
  have "ledger (add_user_points (group_id game) (challenger_id game) (- v) ?w1)
      = ledger (add_user_points (group_id game) (challenger_id game) (- v) w)"
    by (rule add_user_points_ledger(1)) simp_all
  then show "ledger (challenge_response_handler Refuse game_id user_id now w)
           = ledger (add_user_points (group_id game) (challenger_id game) (- v) w)"
    by (simp add: h)
qed

lemma refuse_plain_media:
  assumes "map_of (games w) game_id = Some game" and "user_id = opponent_id game"
    and "\<not> is_revenge game" and "challenger_stake game = Some (Media k f)"
  shows "map_of (games (challenge_response_handler Refuse game_id user_id now w)) game_id = None"
    and "ledger (challenge_response_handler Refuse game_id user_id now w) = ledger w"
    and "SendMedia (group_id game) k f (Response (RefusedLoserCaption (challenger_id game)))
           \<in> set (outbox (challenge_response_handler Refuse game_id user_id now w))"
  using assms
  by (simp_all add: challenge_response_handler_def Let_def update_game_activity_lookup
      delete_conv')

lemma refuse_revenge_settles:
  assumes "map_of (games w) game_id = Some game" and "user_id = opponent_id game"
    and "is_revenge game" and "old_game_id game = Some old_id" and "old_id \<noteq> game_id"
    and "map_of (games w) old_id = Some old_game"
    and "winner_id old_game = Some refuser" and "loser_id old_game = Some ch"
  shows "map_of (games (challenge_response_handler Refuse game_id user_id now w)) game_id = None"
    and "refuser_stake old_game refuser = Some (Points v) \<Longrightarrow>
         ledger (challenge_response_handler Refuse game_id user_id now w)
           = ledger (add_user_points (group_id game) refuser (- v)
               (add_user_points (group_id game) ch v w))"
    and "refuser_stake old_game refuser = Some (Media k f) \<Longrightarrow>
         ledger (challenge_response_handler Refuse game_id user_id now w) = ledger w
         \<and> SendMedia (group_id game) k f (Response (RevengeRefusedCaption refuser ch))
             \<in> set (outbox (challenge_response_handler Refuse game_id user_id now w))"
    and "refuser_stake old_game refuser = None \<Longrightarrow>
         ledger (challenge_response_handler Refuse game_id user_id now w) = ledger w"
proof -
  let ?wa = "update_game_activity game_id now (emit (AnswerQuery user_id) w)"
  have old: "map_of (games ?wa) old_id = Some old_game"
    using assms by (simp add: update_game_activity_lookup)
  have cur: "map_of (games ?wa) game_id
               = Some (game\<lparr>last_activity := now, warning_sent := False\<rparr>)"
    using assms by (simp add: update_game_activity_lookup)
  have h: "challenge_response_handler Refuse game_id user_id now w
      = (case refuse_revenge (game\<lparr>last_activity := now, warning_sent := False\<rparr>) (games ?wa) ?wa of
           None \<Rightarrow> ?wa
         | Some w1 \<Rightarrow> emit (EditQueryMessage (Response RevengeRefused))
                        (w1\<lparr>games := AList.delete game_id (games ?wa)\<rparr>))"
    using assms(1,3-) unfolding assms(2)
    by (simp add: challenge_response_handler_def Let_def update_game_activity_lookup)
  have rr: "refuse_revenge (game\<lparr>last_activity := now, warning_sent := False\<rparr>) (games ?wa) ?wa
      = (case refuser_stake old_game refuser of
           None \<Rightarrow> Some (emit (SendMessage (group_id game)
                                  (Response (RevengeRefusedNoStake refuser))) ?wa)
         | Some (Points v) \<Rightarrow>
             Some (emit (SendMessage (group_id game)
                           (Response (RevengeRefusedPoints refuser v ch)))
                     (add_user_points (group_id game) refuser (- v)
                        (add_user_points (group_id game) ch v ?wa)))
         | Some (Media k f) \<Rightarrow>
             Some (emit (SendMedia (group_id game) k f
                           (Response (RevengeRefusedCaption refuser ch))) ?wa))"
    using assms(1,3-) unfolding assms(2)
    by (simp add: refuse_revenge_def Let_def update_game_activity_lookup refuser_stake_def)
  show "map_of (games (challenge_response_handler Refuse game_id user_id now w)) game_id = None"
    by (simp add: h rr delete_conv' split: option.splits stake.splits)
  show "ledger (challenge_response_handler Refuse game_id user_id now w)
           = ledger (add_user_points (group_id game) refuser (- v)
               (add_user_points (group_id game) ch v w))"
    if "refuser_stake old_game refuser = Some (Points v)"
  proof -
    have a: "ledger (add_user_points (group_id game) ch v ?wa)
           = ledger (add_user_points (group_id game) ch v w)"
      "same_rules (add_user_points (group_id game) ch v ?wa)
           (add_user_points (group_id game) ch v w)"
      by (rule add_user_points_ledger; simp)+
    have "ledger (add_user_points (group_id game) refuser (- v)
                   (add_user_points (group_id game) ch v ?wa))
        = ledger (add_user_points (group_id game) refuser (- v)
                   (add_user_points (group_id game) ch v w))"
      using a by (rule add_user_points_ledger(1))
    then show ?thesis
      using that by (simp add: h rr)
  qed
  show "ledger (challenge_response_handler Refuse game_id user_id now w) = ledger w
         \<and> SendMedia (group_id game) k f (Response (RevengeRefusedCaption refuser ch))
             \<in> set (outbox (challenge_response_handler Refuse game_id user_id now w))"
    if "refuser_stake old_game refuser = Some (Media k f)"
    using that by (simp add: h rr)
  show "ledger (challenge_response_handler Refuse game_id user_id now w) = ledger w"
    if "refuser_stake old_game refuser = None"
    using that by (simp add: h rr)
qed

lemma add_user_points_other:
  "u' \<noteq> u \<Longrightarrow> get_user_points (add_user_points g u d w) g u' = get_user_points w g u'"
  by (simp add: add_user_points_def check_for_negative_points_def Let_def get_user_points_def
      set_user_points_def split: option.splits)

lemma refuse_revenge_fallback:
  assumes "map_of (games w) game_id = Some game" and "user_id = opponent_id game"
    and "is_revenge game"
    and "old_game_id game = None
         \<or> (\<exists>old_id. old_game_id game = Some old_id \<and> old_id \<noteq> game_id
              \<and> map_of (games w) old_id = None)"
  shows "map_of (games (challenge_response_handler Refuse game_id user_id now w)) game_id = None"
    and "ledger (challenge_response_handler Refuse game_id user_id now w) = ledger w"
  using assms(1,3-) unfolding assms(2)
  by (auto simp add: challenge_response_handler_def refuse_revenge_def Let_def
      update_game_activity_lookup delete_conv')

text \<open>
  C4 (amended). The opponent of a stored challenge that waits for acceptance presses
  Refuse. For a challenge that is not a revenge challenge, the challenger's stake is
  forfeited: staked points are deducted from the challenger through \<open>add_user_points\<close>,
  staked media is posted to the group, and the session is deleted from the file, so it
  never becomes active. For a revenge challenge whose original game is stored with its
  winner and loser, the stake of the revenge challenger is not touched: what is settled
  is the stake that the refuser, the original winner, had put on the original game.
  Staked points move from the refuser to the original loser through two calls of
  \<open>add_user_points\<close>, staked media of the refuser is posted to the group, and the revenge
  session is deleted. When the original game is missing the revenge session is deleted
  and nothing is forfeited.
\<close>

theorem C4_refusal_settlement:
  assumes "map_of (games w) game_id = Some game"
    and "status game = PendingOpponentAcceptance"
    and "user_id = opponent_id game"
  shows "let w' = challenge_response_handler Refuse game_id user_id now w;
             g = group_id game; c = challenger_id game
         in (\<not> is_revenge game \<longrightarrow>
               (\<forall>v. challenger_stake game = Some (Points v) \<longrightarrow>
                  map_of (games w') game_id = None
                \<and> ledger w' = ledger (add_user_points g c (- v) w)
                \<and> (0 \<le> get_user_points w g c - v \<longrightarrow>
                     get_user_points w' g c = get_user_points w g c - v))
             \<and> (\<forall>k f. challenger_stake game = Some (Media k f) \<longrightarrow>
                  map_of (games w') game_id = None
                \<and> ledger w' = ledger w
                \<and> SendMedia g k f (Response (RefusedLoserCaption c)) \<in> set (outbox w')))
          \<and> (is_revenge game \<longrightarrow>
               (old_game_id game = None
                \<or> (\<exists>old_id. old_game_id game = Some old_id \<and> old_id \<noteq> game_id
                     \<and> map_of (games w) old_id = None) \<longrightarrow>
                  map_of (games w') game_id = None \<and> ledger w' = ledger w)
             \<and> (\<forall>old_id old_game refuser ch.
                  old_game_id game = Some old_id \<and> old_id \<noteq> game_id
                  \<and> map_of (games w) old_id = Some old_game
                  \<and> winner_id old_game = Some refuser \<and> loser_id old_game = Some ch \<longrightarrow>
                    map_of (games w') game_id = None
                  \<and> (\<forall>v. refuser_stake old_game refuser = Some (Points v) \<longrightarrow>
                        ledger w' = ledger (add_user_points g refuser (- v)
                                              (add_user_points g ch v w))
                      \<and> (refuser \<noteq> ch \<and> 0 \<le> get_user_points w g ch + v
                         \<and> 0 \<le> get_user_points w g refuser - v \<longrightarrow>
                           get_user_points w' g ch = get_user_points w g ch + v
                         \<and> get_user_points w' g refuser = get_user_points w g refuser - v))
                  \<and> (\<forall>k f. refuser_stake old_game refuser = Some (Media k f) \<longrightarrow>
                        ledger w' = ledger w
                      \<and> SendMedia g k f (Response (RevengeRefusedCaption refuser ch))
                          \<in> set (outbox w'))
                  \<and> (refuser_stake old_game refuser = None \<longrightarrow> ledger w' = ledger w)))"
proof -
  let ?w' = "challenge_response_handler Refuse game_id user_id now w"
  let ?g = "group_id game"
  let ?c = "challenger_id game"
  have plain_points:
    "map_of (games ?w') game_id = None
     \<and> ledger ?w' = ledger (add_user_points ?g ?c (- v) w)
     \<and> (0 \<le> get_user_points w ?g ?c - v \<longrightarrow>
          get_user_points ?w' ?g ?c = get_user_points w ?g ?c - v)"
    if "\<not> is_revenge game" "challenger_stake game = Some (Points v)" for v
  proof -
    have l: "ledger ?w' = ledger (add_user_points ?g ?c (- v) w)"
      using assms(1,3) that by (rule refuse_plain_points(2))
    have "get_user_points ?w' ?g ?c = get_user_points w ?g ?c - v"
      if "0 \<le> get_user_points w ?g ?c - v"
      using that add_user_points_nonneg [of w ?g ?c "- v"] ledger_balance [OF l, of ?g ?c]
      by simp
    moreover have "map_of (games ?w') game_id = None"
      using assms(1,3) that by (rule refuse_plain_points(1))
    ultimately show ?thesis using l by simp
  qed
  have plain_media:
    "map_of (games ?w') game_id = None \<and> ledger ?w' = ledger w
     \<and> SendMedia ?g k f (Response (RefusedLoserCaption ?c)) \<in> set (outbox ?w')"
    if "\<not> is_revenge game" "challenger_stake game = Some (Media k f)" for k f
    using refuse_plain_media [OF assms(1,3) that] by simp
  have fallback: "map_of (games ?w') game_id = None \<and> ledger ?w' = ledger w"
    if "is_revenge game"
      "old_game_id game = None
       \<or> (\<exists>old_id. old_game_id game = Some old_id \<and> old_id \<noteq> game_id
            \<and> map_of (games w) old_id = None)"
    using refuse_revenge_fallback [OF assms(1,3) that] by simp
  have revenge:
    "map_of (games ?w') game_id = None
     \<and> (\<forall>v. refuser_stake old_game refuser = Some (Points v) \<longrightarrow>
           ledger ?w' = ledger (add_user_points ?g refuser (- v) (add_user_points ?g ch v w))
         \<and> (refuser \<noteq> ch \<and> 0 \<le> get_user_points w ?g ch + v
            \<and> 0 \<le> get_user_points w ?g refuser - v \<longrightarrow>
              get_user_points ?w' ?g ch = get_user_points w ?g ch + v
            \<and> get_user_points ?w' ?g refuser = get_user_points w ?g refuser - v))
     \<and> (\<forall>k f. refuser_stake old_game refuser = Some (Media k f) \<longrightarrow>
           ledger ?w' = ledger w
         \<and> SendMedia ?g k f (Response (RevengeRefusedCaption refuser ch)) \<in> set (outbox ?w'))
     \<and> (refuser_stake old_game refuser = None \<longrightarrow> ledger ?w' = ledger w)"
    if r: "is_revenge game" "old_game_id game = Some old_id" "old_id \<noteq> game_id"
      "map_of (games w) old_id = Some old_game"
      "winner_id old_game = Some refuser" "loser_id old_game = Some ch"
    for old_id old_game refuser ch
  proof -
    note s = refuse_revenge_settles [OF assms(1,3) r]
    have pts: "ledger ?w' = ledger (add_user_points ?g refuser (- v) (add_user_points ?g ch v w))
         \<and> (refuser \<noteq> ch \<and> 0 \<le> get_user_points w ?g ch + v
            \<and> 0 \<le> get_user_points w ?g refuser - v \<longrightarrow>
              get_user_points ?w' ?g ch = get_user_points w ?g ch + v
            \<and> get_user_points ?w' ?g refuser = get_user_points w ?g refuser - v)"
      if st: "refuser_stake old_game refuser = Some (Points v)" for v
    proof -
      let ?w1 = "add_user_points ?g ch v w"
      have l: "ledger ?w' = ledger (add_user_points ?g refuser (- v) ?w1)"
        using st by (rule s(2))
      have "get_user_points ?w' ?g ch = get_user_points w ?g ch + v
          \<and> get_user_points ?w' ?g refuser = get_user_points w ?g refuser - v"
        if ne: "refuser \<noteq> ch" and a: "0 \<le> get_user_points w ?g ch + v"
          and b: "0 \<le> get_user_points w ?g refuser - v"
      proof -
        have c1: "get_user_points ?w1 ?g ch = get_user_points w ?g ch + v"
          using a by (rule add_user_points_nonneg)
        have c2: "get_user_points ?w1 ?g refuser = get_user_points w ?g refuser"
          using ne by (rule add_user_points_other)
        have c3: "get_user_points (add_user_points ?g refuser (- v) ?w1) ?g ch
                    = get_user_points ?w1 ?g ch"
          using ne add_user_points_other [of ch refuser ?g "- v" ?w1] by simp
        have c4: "get_user_points (add_user_points ?g refuser (- v) ?w1) ?g refuser
                    = get_user_points ?w1 ?g refuser + - v"
          using b c2 add_user_points_nonneg [of ?w1 ?g refuser "- v"] by simp
        show ?thesis
          using c1 c2 c3 c4 ledger_balance [OF l, of ?g ch] ledger_balance [OF l, of ?g refuser]
          by simp
      qed
      then show ?thesis using l by simp
    qed
    show ?thesis
      using s(1) s(3) s(4) pts by blast
  qed
  show ?thesis
    unfolding Let_def
    using plain_points plain_media fallback revenge by blast
qed

lemma refused_game_fields:
  "status refused_game = PendingOpponentAcceptance" "challenger_id refused_game = 1"
  "opponent_id refused_game = 2" "group_id refused_game = 101"
  "\<not> is_revenge refused_game" "challenger_stake refused_game = Some (Points 10)"
  by (simp_all add: refused_game_def fresh_game_def)

lemma revenge_game_fields:
  "status revenge_game = PendingOpponentAcceptance" "challenger_id revenge_game = 2"
  "opponent_id revenge_game = 1" "group_id revenge_game = 101"
  "is_revenge revenge_game" "challenger_stake revenge_game = Some (Points 10)"
  "old_game_id revenge_game = Some ''old''"
  by (simp_all add: revenge_game_def fresh_game_def)

lemma settled_game_fields:
  "winner_id settled_game = Some 1" "loser_id settled_game = Some 2"
  "refuser_stake settled_game 1 = Some (Points 30)"
  by (simp_all add: settled_game_def fresh_game_def refuser_stake_def)

lemma revenge_world_fields:
  "map_of (games revenge_world) ''rev'' = Some revenge_game"
  "map_of (games revenge_world) ''old'' = Some settled_game"
  "get_user_points revenge_world 101 1 = 50" "get_user_points revenge_world 101 2 = 50"
  by (simp_all add: revenge_world_def board_world_def get_user_points_def)

lemma board_world_balance:
  "get_user_points (board_world k g) 101 1 = 50" "get_user_points (board_world k g) 101 2 = 50"
  by (simp_all add: board_world_def get_user_points_def)

theorem C4_refusal_settlement_witness:
  "map_of (games (board_world ''g1'' refused_game)) ''g1'' = Some refused_game
   \<and> status refused_game = PendingOpponentAcceptance \<and> opponent_id refused_game = 2
   \<and> \<not> is_revenge refused_game \<and> challenger_stake refused_game = Some (Points 10)
   \<and> get_user_points (board_world ''g1'' refused_game) 101 1 = 50
   \<and> map_of (games (challenge_response_handler Refuse ''g1'' 2 5
                      (board_world ''g1'' refused_game))) ''g1'' = None
   \<and> get_user_points (challenge_response_handler Refuse ''g1'' 2 5
                        (board_world ''g1'' refused_game)) 101 1 = 40
   \<and> map_of (games revenge_world) ''rev'' = Some revenge_game
   \<and> status revenge_game = PendingOpponentAcceptance \<and> opponent_id revenge_game = 1
   \<and> is_revenge revenge_game \<and> old_game_id revenge_game = Some ''old''
   \<and> map_of (games revenge_world) ''old'' = Some settled_game
   \<and> winner_id settled_game = Some 1 \<and> loser_id settled_game = Some 2
   \<and> refuser_stake settled_game 1 = Some (Points 30)
   \<and> map_of (games (challenge_response_handler Refuse ''rev'' 1 5 revenge_world)) ''rev'' = None
   \<and> get_user_points (challenge_response_handler Refuse ''rev'' 1 5 revenge_world) 101 2 = 80
   \<and> get_user_points (challenge_response_handler Refuse ''rev'' 1 5 revenge_world) 101 1 = 20"
proof -
  have plain:
    "map_of (games (challenge_response_handler Refuse ''g1'' 2 5
                      (board_world ''g1'' refused_game))) ''g1'' = None
     \<and> get_user_points (challenge_response_handler Refuse ''g1'' 2 5
                        (board_world ''g1'' refused_game)) 101 1 = 40"
    using C4_refusal_settlement [of "board_world ''g1'' refused_game" "''g1''" refused_game 2 5]
    by (simp add: Let_def board_world_fields refused_game_fields board_world_balance)
  have revenge:
    "map_of (games (challenge_response_handler Refuse ''rev'' 1 5 revenge_world)) ''rev'' = None
     \<and> get_user_points (challenge_response_handler Refuse ''rev'' 1 5 revenge_world) 101 2 = 80
     \<and> get_user_points (challenge_response_handler Refuse ''rev'' 1 5 revenge_world) 101 1 = 20"
    using C4_refusal_settlement [of revenge_world "''rev''" revenge_game 1 5]
    by (simp add: Let_def revenge_world_fields revenge_game_fields settled_game_fields)
  show ?thesis
    using plain revenge
    by (simp add: board_world_fields refused_game_fields board_world_balance
        revenge_world_fields revenge_game_fields settled_game_fields)
qed

text \<open>
  The revenge case of the claim as stated fails. User 1 won the game \<open>old\<close> on which both
  players had staked 30 points; user 2 challenges for a revenge with a stake of 10 points
  and user 1 refuses. The challenger's 10 points are not deducted: the challenger gains
  the 30 points that the refuser had staked on the original game.
\<close>

theorem C4_revenge_refusal_counterexample:
  "map_of (games revenge_world) ''rev'' = Some revenge_game
   \<and> status revenge_game = PendingOpponentAcceptance \<and> is_revenge revenge_game
   \<and> challenger_id revenge_game = 2 \<and> opponent_id revenge_game = 1
   \<and> challenger_stake revenge_game = Some (Points 10)
   \<and> get_user_points revenge_world 101 2 = 50
   \<and> get_user_points (challenge_response_handler Refuse ''rev'' 1 5 revenge_world) 101 2 = 80
   \<and> get_user_points (challenge_response_handler Refuse ''rev'' 1 5 revenge_world) 101 2
       \<noteq> get_user_points revenge_world 101 2 - 10
   \<and> get_user_points (challenge_response_handler Refuse ''rev'' 1 5 revenge_world) 101 1 = 20"
proof -
  let ?w' = "challenge_response_handler Refuse ''rev'' 1 5 revenge_world"
  let ?w1 = "add_user_points 101 2 30 revenge_world"
  have l: "ledger ?w' = ledger (add_user_points 101 1 (- 30) ?w1)"
    using refuse_revenge_settles(2) [of revenge_world "''rev''" revenge_game 1 "''old''"
        settled_game 1 2 30 5]
    by (simp add: revenge_world_fields revenge_game_fields settled_game_fields)
  have c1: "get_user_points ?w1 101 2 = 80"
    using add_user_points_nonneg [of revenge_world 101 2 30]
    by (simp add: revenge_world_fields)
  have c2: "get_user_points ?w1 101 1 = 50"
    using add_user_points_other [of 1 2 101 30 revenge_world]
    by (simp add: revenge_world_fields)
  have c3: "get_user_points (add_user_points 101 1 (- 30) ?w1) 101 2 = 80"
    using add_user_points_other [of 2 1 101 "- 30" ?w1] c1 by simp
  have c4: "get_user_points (add_user_points 101 1 (- 30) ?w1) 101 1 = 20"
    using add_user_points_nonneg [of ?w1 101 1 "- 30"] c2 by simp
  show ?thesis
    using c3 c4 ledger_balance [OF l, of 101 2] ledger_balance [OF l, of 101 1]
    by (simp add: revenge_world_fields revenge_game_fields)
qed

lemma lose_stake_in_cancellation_frame [simp]:
  "games (lose_stake_in_cancellation g u st w) = games w"
  "same_rules (lose_stake_in_cancellation g u st w) w' = same_rules w w'"
  by (simp_all add: lose_stake_in_cancellation_def same_rules_def split: option.splits stake.splits)

lemma lose_stake_in_cancellation_ledger:
  assumes "ledger w1 = ledger w2" and "same_rules w1 w2"
  shows "ledger (lose_stake_in_cancellation g u st w1) = ledger (lose_stake_in_cancellation g u st w2)"
    and "same_rules (lose_stake_in_cancellation g u st w1) (lose_stake_in_cancellation g u st w2)"
  using assms add_user_points_ledger [OF assms]
  by (simp_all add: lose_stake_in_cancellation_def same_rules_def
      split: option.splits stake.splits)

lemma handle_challenge_timeout_expired:
  assumes "map_of (games w) k = Some game" and "status game = PendingOpponentAcceptance"
  shows "map_of (games (handle_challenge_timeout k w)) k
           = Some (game\<lparr>status := Complete, messages_to_delete := []\<rparr>)"
    and "ledger (handle_challenge_timeout k w) = ledger w"
    and "outbox (handle_challenge_timeout k w)
           = outbox w @ SendMessage (group_id game)
                          (Settlement (ChallengeExpired (challenger_id game) (opponent_id game)))
                        # map (\<lambda>(c, m). DeleteMessage c m) (messages_to_delete game)"
  using assms
  by (simp_all add: handle_challenge_timeout_def Let_def delete_tracked_messages_lookup
      update_conv' delete_tracked_messages_def)

lemma handle_game_cancellation_cancelled:
  assumes "map_of (games w) k = Some game" and "status game \<noteq> Complete"
  shows "map_of (games (handle_game_cancellation k w)) k
           = Some (game\<lparr>status := Complete, messages_to_delete := []\<rparr>)"
    and "ledger (handle_game_cancellation k w)
           = ledger (lose_stake_in_cancellation (group_id game) (opponent_id game)
                       (opponent_stake game)
                       (lose_stake_in_cancellation (group_id game) (challenger_id game)
                          (challenger_stake game) w))"
proof -
  let ?g = "group_id game"
  let ?w1 = "emit (SendMessage ?g (Settlement
                (CancelledForInactivity (challenger_id game) (opponent_id game)))) w"
  let ?w2 = "lose_stake_in_cancellation ?g (challenger_id game) (challenger_stake game) ?w1"
  let ?w3 = "lose_stake_in_cancellation ?g (opponent_id game) (opponent_stake game) ?w2"
  have h: "handle_game_cancellation k w
             = delete_tracked_messages k
                 (?w3\<lparr>games := AList.update k (game\<lparr>status := Complete\<rparr>) (games w)\<rparr>)"
    using assms by (simp add: handle_game_cancellation_def Let_def)
  show "map_of (games (handle_game_cancellation k w)) k
           = Some (game\<lparr>status := Complete, messages_to_delete := []\<rparr>)"
    by (simp add: h delete_tracked_messages_lookup update_conv')
  have a: "ledger ?w2 = ledger (lose_stake_in_cancellation ?g (challenger_id game)
                                  (challenger_stake game) w)"
    "same_rules ?w2 (lose_stake_in_cancellation ?g (challenger_id game)
                       (challenger_stake game) w)"
    by (rule lose_stake_in_cancellation_ledger; simp)+
  have "ledger ?w3 = ledger (lose_stake_in_cancellation ?g (opponent_id game)
                       (opponent_stake game)
                       (lose_stake_in_cancellation ?g (challenger_id game)
                          (challenger_stake game) w))"
    using a by (rule lose_stake_in_cancellation_ledger(1))
  then show "ledger (handle_game_cancellation k w)
           = ledger (lose_stake_in_cancellation (group_id game) (opponent_id game)
                       (opponent_stake game)
                       (lose_stake_in_cancellation (group_id game) (challenger_id game)
                          (challenger_stake game) w))"
    by (simp add: h)
qed

lemma add_user_points_keeps_outbox:
  "set (outbox w) \<subseteq> set (outbox (add_user_points g u d w))"
  by (auto simp add: add_user_points_def check_for_negative_points_def Let_def
      check_for_punishment_def punishment_loop_outbox set_user_points_def
      split: option.splits)

lemma lose_stake_in_cancellation_keeps_outbox:
  "set (outbox w) \<subseteq> set (outbox (lose_stake_in_cancellation g u st w))"
  using add_user_points_keeps_outbox
  by (auto simp add: lose_stake_in_cancellation_def split: option.splits stake.splits)

lemma handle_game_cancellation_notice:
  assumes "map_of (games w) k = Some game" and "status game \<noteq> Complete"
  shows "SendMessage (group_id game)
           (Settlement (CancelledForInactivity (challenger_id game) (opponent_id game)))
         \<in> set (outbox (handle_game_cancellation k w))"
proof -
  let ?g = "group_id game"
  let ?e = "SendMessage ?g (Settlement
              (CancelledForInactivity (challenger_id game) (opponent_id game)))"
  let ?w2 = "lose_stake_in_cancellation ?g (challenger_id game) (challenger_stake game)
               (emit ?e w)"
  let ?w3 = "lose_stake_in_cancellation ?g (opponent_id game) (opponent_stake game) ?w2"
  have "?e \<in> set (outbox (emit ?e w))" by simp
  then have "?e \<in> set (outbox ?w2)"
    using lose_stake_in_cancellation_keeps_outbox by blast
  then have "?e \<in> set (outbox ?w3)"
    using lose_stake_in_cancellation_keeps_outbox by blast
  then show ?thesis
    using assms
    by (simp add: handle_game_cancellation_def Let_def delete_tracked_messages_def update_conv')
qed

lemma idle_game_fields:
  "status (idle_game s warned) = s" "challenger_id (idle_game s warned) = 1"
  "opponent_id (idle_game s warned) = 2" "group_id (idle_game s warned) = 101"
  "last_activity (idle_game s warned) = 0" "warning_sent (idle_game s warned) = warned"
  "challenger_stake (idle_game s warned) = Some (Points 30)"
  "opponent_stake (idle_game s warned) = None"
  "messages_to_delete (idle_game s warned) = []"
  by (simp_all add: idle_game_def fresh_game_def)

text \<open>
  One step of the loop of \<open>check_game_inactivity\<close>, on a session that is not complete and
  is stored in the file as in the snapshot, with \<open>idle = now - last_activity\<close>:
  \<^item> status \<open>pending_opponent_acceptance\<close> and \<open>idle > 120\<close>: the session is stored as
    complete, the expiry notice and the deletions of its tracked messages are all that is
    sent, and the ledger is unchanged;
  \<^item> otherwise \<open>idle > 420\<close>: the session is stored as complete, the cancellation notice is
    sent, and the ledger is the one after both recorded stakes have gone through
    \<open>lose_stake_in_cancellation\<close>, whatever the status of the session is;
  \<^item> otherwise \<open>idle > 300\<close> and no warning sent: exactly one warning is sent, the
    snapshot with the mark set becomes the file, the ledger is unchanged, and
    \<open>update_game_activity\<close> on the session clears the mark again;
  \<^item> otherwise the step changes nothing.
\<close>

lemma inactivity_step_tiers:
  assumes "map_of (games w) game_id = Some game"
    and "status game \<noteq> Complete"
  shows "let st' = inactivity_step now (game_id, game) (games_data, w);
             w' = snd st'; idle = now - last_activity game; g = group_id game;
             expired = (status game = PendingOpponentAcceptance \<and> idle > 120)
         in (expired \<longrightarrow>
               map_of (games w') game_id
                 = Some (game\<lparr>status := Complete, messages_to_delete := []\<rparr>)
             \<and> ledger w' = ledger w
             \<and> outbox w' = outbox w @
                  SendMessage g (Settlement (ChallengeExpired (challenger_id game)
                                               (opponent_id game)))
                  # map (\<lambda>(c, m). DeleteMessage c m) (messages_to_delete game))
          \<and> (\<not> expired \<and> idle > 420 \<longrightarrow>
               map_of (games w') game_id
                 = Some (game\<lparr>status := Complete, messages_to_delete := []\<rparr>)
             \<and> ledger w'
                 = ledger (lose_stake_in_cancellation g (opponent_id game) (opponent_stake game)
                            (lose_stake_in_cancellation g (challenger_id game)
                               (challenger_stake game) w))
             \<and> SendMessage g (Settlement (CancelledForInactivity (challenger_id game)
                                            (opponent_id game))) \<in> set (outbox w'))
          \<and> (\<not> expired \<and> idle \<le> 420 \<and> idle > 300 \<and> \<not> warning_sent game \<longrightarrow>
               outbox w' = outbox w @
                  [SendMessage g (Settlement (InactivityWarning (challenger_id game)
                                                (opponent_id game)))]
             \<and> map_of (games w') game_id = Some (game\<lparr>warning_sent := True\<rparr>)
             \<and> ledger w' = ledger w
             \<and> map_of (games (update_game_activity game_id t w')) game_id
                 = Some (game\<lparr>last_activity := t, warning_sent := False\<rparr>))
          \<and> (\<not> expired \<and> (idle \<le> 300 \<or> idle \<le> 420 \<and> warning_sent game) \<longrightarrow>
               st' = (games_data, w))"
proof -
  let ?idle = "now - last_activity game"
  let ?expired = "status game = PendingOpponentAcceptance \<and> ?idle > 120"
  let ?st' = "inactivity_step now (game_id, game) (games_data, w)"
  have t1: "snd ?st' = handle_challenge_timeout game_id w" if "?expired"
    using that assms(2) by (simp add: inactivity_step_def Let_def)
  have t2: "snd ?st' = handle_game_cancellation game_id w" if "\<not> ?expired" "?idle > 420"
    using that assms(2) by (auto simp add: inactivity_step_def Let_def)
  have t3: "snd ?st'
      = (emit (SendMessage (group_id game)
           (Settlement (InactivityWarning (challenger_id game) (opponent_id game)))) w)
        \<lparr>games := AList.update game_id (game\<lparr>warning_sent := True\<rparr>) games_data\<rparr>"
    if "\<not> ?expired" "?idle \<le> 420" "?idle > 300" "\<not> warning_sent game"
    using that assms(2) by (auto simp add: inactivity_step_def Let_def)
  have t4: "?st' = (games_data, w)"
    if "\<not> ?expired" "?idle \<le> 300 \<or> ?idle \<le> 420 \<and> warning_sent game"
    using that assms(2) by (auto simp add: inactivity_step_def Let_def)
  have c1: "map_of (games (snd ?st')) game_id
                 = Some (game\<lparr>status := Complete, messages_to_delete := []\<rparr>)
             \<and> ledger (snd ?st') = ledger w
             \<and> outbox (snd ?st') = outbox w @
                  SendMessage (group_id game)
                    (Settlement (ChallengeExpired (challenger_id game) (opponent_id game)))
                  # map (\<lambda>(c, m). DeleteMessage c m) (messages_to_delete game)"
    if e: "?expired"
    using handle_challenge_timeout_expired [OF assms(1)] e
    by (simp add: t1 [OF e])
  have c2: "map_of (games (snd ?st')) game_id
                 = Some (game\<lparr>status := Complete, messages_to_delete := []\<rparr>)
             \<and> ledger (snd ?st')
                 = ledger (lose_stake_in_cancellation (group_id game) (opponent_id game)
                            (opponent_stake game)
                            (lose_stake_in_cancellation (group_id game) (challenger_id game)
                               (challenger_stake game) w))
             \<and> SendMessage (group_id game)
                  (Settlement (CancelledForInactivity (challenger_id game) (opponent_id game)))
                 \<in> set (outbox (snd ?st'))"
    if e: "\<not> ?expired" "?idle > 420"
    using handle_game_cancellation_cancelled [OF assms] handle_game_cancellation_notice [OF assms]
    by (simp add: t2 [OF e])
  have c3: "outbox (snd ?st') = outbox w @
                  [SendMessage (group_id game)
                     (Settlement (InactivityWarning (challenger_id game) (opponent_id game)))]
             \<and> map_of (games (snd ?st')) game_id = Some (game\<lparr>warning_sent := True\<rparr>)
             \<and> ledger (snd ?st') = ledger w
             \<and> map_of (games (update_game_activity game_id t (snd ?st'))) game_id
                 = Some (game\<lparr>last_activity := t, warning_sent := False\<rparr>)"
    if e: "\<not> ?expired" "?idle \<le> 420" "?idle > 300" "\<not> warning_sent game"
    by (simp add: t3 [OF e] update_conv' update_game_activity_lookup)
  show ?thesis
    unfolding Let_def using c1 c2 c3 t4 by blast
qed

lemma ttt_game_stakes:
  "challenger_stake ttt_game = Some (Points 10)" "opponent_stake ttt_game = Some (Points 20)"
  "last_activity ttt_game = 0" "\<not> warning_sent ttt_game" "status ttt_game = Active"
  "challenger_id ttt_game = 1" "opponent_id ttt_game = 2" "group_id ttt_game = 101"
  by (simp_all add: ttt_game_def fresh_game_def)

lemma board_world_both_lose:
  "get_user_points (add_user_points 101 2 (- b) (add_user_points 101 1 (- a) (board_world k g)))
     101 1 = 50 - a"
  "get_user_points (add_user_points 101 2 (- b) (add_user_points 101 1 (- a) (board_world k g)))
     101 2 = 50 - b"
  if "a \<le> 50" "b \<le> 50"
proof -
  let ?w1 = "add_user_points 101 1 (- a) (board_world k g)"
  have c1: "get_user_points ?w1 101 1 = 50 - a"
    using add_user_points_nonneg [of "board_world k g" 101 1 "- a"] that
    by (simp add: board_world_balance)
  have c2: "get_user_points ?w1 101 2 = 50"
    using add_user_points_other [of 2 1 101 "- a" "board_world k g"]
    by (simp add: board_world_balance)
  show "get_user_points (add_user_points 101 2 (- b) ?w1) 101 1 = 50 - a"
    using add_user_points_other [of 1 2 101 "- b" ?w1] c1 by simp
  show "get_user_points (add_user_points 101 2 (- b) ?w1) 101 2 = 50 - b"
    using add_user_points_nonneg [of ?w1 101 2 "- b"] c2 that by simp
qed

section \<open>Punishment rules on a change of balance\<close>

lemma check_for_negative_points_rule_counts:
  "count_list (outbox (check_for_negative_points g u pts w))
     (SendMessage c (Ledger (PunishmentIssued u' t m)))
   = count_list (outbox w) (SendMessage c (Ledger (PunishmentIssued u' t m)))"
  "count_list (outbox (check_for_negative_points g u pts w))
     (SendMessage c (Ledger (PunishmentTriggered u' g' m t)))
   = count_list (outbox w) (SendMessage c (Ledger (PunishmentTriggered u' g' m t)))"
  by (simp_all add: check_for_negative_points_def Let_def count_list_send_map)

lemma check_for_negative_points_status [simp]:
  "punishment_status (check_for_negative_points g u pts w) = punishment_status w"
  by (simp add: check_for_negative_points_def Let_def)

lemma add_user_points_unfold:
  "add_user_points g u delta w
     = check_for_negative_points g u (get_user_points w g u + delta)
         (check_for_punishment g u (get_user_points w g u) (get_user_points w g u + delta)
            (let w1 = set_user_points g u (get_user_points w g u + delta) w
             in if get_user_points w g u + delta \<ge> 0 then
                  (case negative_tracker w1 (g, u) of
                     None \<Rightarrow> w1
                   | Some c \<Rightarrow>
                       if c \<noteq> 0 then w1\<lparr>negative_tracker := (negative_tracker w1)((g, u) \<mapsto> 0)\<rparr>
                       else w1)
                else w1))"
  by (simp add: add_user_points_def Let_def)


lemma add_user_points_distinct:
  assumes "distinct (get_triggered_punishments_for_user w g u)"
  shows "distinct (get_triggered_punishments_for_user (add_user_points g u delta w) g u)"
proof -
  define w2 where "w2 =
    (let w1 = set_user_points g u (get_user_points w g u + delta) w
     in if get_user_points w g u + delta \<ge> 0 then
          (case negative_tracker w1 (g, u) of
             None \<Rightarrow> w1
           | Some c \<Rightarrow>
               if c \<noteq> 0 then w1\<lparr>negative_tracker := (negative_tracker w1)((g, u) \<mapsto> 0)\<rparr>
               else w1)
        else w1)"
  have w': "add_user_points g u delta w
      = check_for_negative_points g u (get_user_points w g u + delta)
          (check_for_punishment g u (get_user_points w g u) (get_user_points w g u + delta) w2)"
    by (simp add: add_user_points_def Let_def w2_def)
  have "get_triggered_punishments_for_user w2 g u = get_triggered_punishments_for_user w g u"
    by (simp add: w2_def Let_def get_triggered_punishments_for_user_def split: option.splits)
  then have d: "distinct (get_triggered_punishments_for_user w2 g u)"
    using assms by simp
  have "distinct (get_triggered_punishments_for_user
                    (check_for_punishment g u old new w2) g u)" for old new
    using d punishment_loop_status [OF d]
    by (simp add: check_for_punishment_def split: option.splits)
  then show ?thesis
    by (simp add: w' get_triggered_punishments_for_user_def)
qed

lemma add_user_points_mute_refused:
  "restrict_fails w g u \<Longrightarrow>
     get_user_points (add_user_points g u delta w) g u = get_user_points w g u + delta"
  by (simp add: add_user_points_def check_for_negative_points_def Let_def get_user_points_def
      split: option.splits)

text \<open>
  C2. \<open>add_user_points\<close> is the operation that applies a delta to a balance; it calls
  \<open>check_for_punishment\<close> with the balance before the delta as the old value and the
  balance after the delta as the new value. For every such mutation and every rule of
  the group with threshold \<open>t\<close> and message \<open>m\<close> (messages are unique within a group,
  as \<open>addpunishment_command\<close> keeps them, and the list of armed messages has no
  duplicates, as the add helper keeps it): the rule fires, that is one notice goes to
  the group and one private notice to each administrator, exactly when \<open>old \<ge> t\<close>,
  \<open>new < t\<close> and the rule was not armed; otherwise the mutation sends nothing for the
  rule. After the mutation the rule is armed exactly when it fired, or was armed and
  \<open>new < t\<close>: so an armed rule is disarmed, silently, whenever \<open>new \<ge> t\<close>, and a later
  downward crossing fires again. The reset of a negative balance to 0 that follows a
  mute is made by \<open>set_user_points\<close> inside \<open>check_for_negative_points\<close>, after the rules
  have been checked, and is not a change the rules see.
\<close>

theorem C2_punishment_fires_on_crossing:
  assumes rules: "punishments w g = Some ps"
    and dm: "distinct (map message ps)"
    and dt: "distinct (get_triggered_punishments_for_user w g u)"
    and p: "p \<in> set ps" "threshold p = Some t" "message p = Some m"
  shows "let old_points = get_user_points w g u;
             new_points = old_points + delta;
             armed = (m \<in> set (get_triggered_punishments_for_user w g u));
             fires = (old_points \<ge> t \<and> new_points < t \<and> \<not> armed);
             w' = add_user_points g u delta w
         in count_list (outbox w') (SendMessage g (Ledger (PunishmentIssued u t m)))
              = count_list (outbox w) (SendMessage g (Ledger (PunishmentIssued u t m)))
                + (if fires then 1 else 0)
          \<and> (\<forall>a. count_list (outbox w') (SendMessage a (Ledger (PunishmentTriggered u g m t)))
              = count_list (outbox w) (SendMessage a (Ledger (PunishmentTriggered u g m t)))
                + (if fires then count_list (admins w g) a else 0))
          \<and> (m \<in> set (get_triggered_punishments_for_user w' g u)
               \<longleftrightarrow> fires \<or> (armed \<and> new_points < t))"
proof -
  let ?old = "get_user_points w g u"
  let ?new = "?old + delta"
  define w2 where "w2 =
    (let w1 = set_user_points g u ?new w
     in if ?new \<ge> 0 then
          (case negative_tracker w1 (g, u) of
             None \<Rightarrow> w1
           | Some c \<Rightarrow>
               if c \<noteq> 0 then w1\<lparr>negative_tracker := (negative_tracker w1)((g, u) \<mapsto> 0)\<rparr>
               else w1)
        else w1)"
  define w3 where "w3 = check_for_punishment g u ?old ?new w2"
  have w': "add_user_points g u delta w = check_for_negative_points g u ?new w3"
    by (simp add: add_user_points_def Let_def w2_def w3_def)
  have f: "punishments w2 = punishments w" "outbox w2 = outbox w" "admins w2 = admins w"
    "get_triggered_punishments_for_user w2 g u = get_triggered_punishments_for_user w g u"
    by (simp_all add: w2_def Let_def get_triggered_punishments_for_user_def
        split: option.splits)
  have tr: "get_triggered_punishments_for_user (check_for_negative_points g u ?new w3) g u
              = get_triggered_punishments_for_user w3 g u"
    by (simp add: get_triggered_punishments_for_user_def)
  have rules2: "punishments w2 g = Some ps" using rules f(1) by simp
  have dt2: "distinct (get_triggered_punishments_for_user w2 g u)" using dt f(4) by simp
  let ?armed = "m \<in> set (get_triggered_punishments_for_user w g u)"
  let ?fires = "?old \<ge> t \<and> ?new < t \<and> \<not> ?armed"
  note c = check_for_punishment_crossing [OF rules2 dm dt2 p, of ?old ?new,
      unfolded Let_def f, folded w3_def]
  have c1: "count_list (outbox w3) (SendMessage g (Ledger (PunishmentIssued u t m)))
              = count_list (outbox w) (SendMessage g (Ledger (PunishmentIssued u t m)))
                + (if ?fires then 1 else 0)"
    using c by blast
  have c2: "count_list (outbox w3) (SendMessage a (Ledger (PunishmentTriggered u g m t)))
              = count_list (outbox w) (SendMessage a (Ledger (PunishmentTriggered u g m t)))
                + (if ?fires then count_list (admins w g) a else 0)" for a
    using c by blast
  have c3: "m \<in> set (get_triggered_punishments_for_user w3 g u)
              \<longleftrightarrow> ?fires \<or> (?armed \<and> ?new < t)"
    using c by blast
  show ?thesis
    unfolding Let_def w' tr check_for_negative_points_rule_counts
    using c1 c2 c3 by blast
qed

theorem C2_punishment_fires_on_crossing_witness:
  "punishments (ledger_world True) 101
      = Some [\<lparr>threshold = Some 0, message = Some ''You are grounded.''\<rparr>]
   \<and> distinct (map message [\<lparr>threshold = Some 0, message = Some ''You are grounded.''\<rparr>])
   \<and> distinct (get_triggered_punishments_for_user (ledger_world True) 101 1)
   \<and> get_user_points (ledger_world True) 101 1 = 50
   \<and> get_user_points (add_user_points 101 1 (- 60) (ledger_world True)) 101 1 = - 10
   \<and> count_list (outbox (add_user_points 101 1 (- 60) (ledger_world True)))
        (SendMessage 101 (Ledger (PunishmentIssued 1 0 ''You are grounded.''))) = 1
   \<and> count_list (outbox (add_user_points 101 1 (- 60) (ledger_world True)))
        (SendMessage 99 (Ledger (PunishmentTriggered 1 101 ''You are grounded.'' 0))) = 1
   \<and> ''You are grounded.'' \<in> set (get_triggered_punishments_for_user
        (add_user_points 101 1 (- 60) (ledger_world True)) 101 1)
   \<and> get_user_points (add_user_points 101 1 30
        (add_user_points 101 1 (- 60) (ledger_world True))) 101 1 = 20
   \<and> count_list (outbox (add_user_points 101 1 30
        (add_user_points 101 1 (- 60) (ledger_world True))))
        (SendMessage 101 (Ledger (PunishmentIssued 1 0 ''You are grounded.''))) = 1
   \<and> ''You are grounded.'' \<notin> set (get_triggered_punishments_for_user
        (add_user_points 101 1 30 (add_user_points 101 1 (- 60) (ledger_world True))) 101 1)
   \<and> get_user_points (add_user_points 101 1 (- 25) (add_user_points 101 1 30
        (add_user_points 101 1 (- 60) (ledger_world True)))) 101 1 = - 5
   \<and> count_list (outbox (add_user_points 101 1 (- 25) (add_user_points 101 1 30
        (add_user_points 101 1 (- 60) (ledger_world True)))))
        (SendMessage 101 (Ledger (PunishmentIssued 1 0 ''You are grounded.''))) = 2"
proof -
  let ?p = "\<lparr>threshold = Some 0, message = Some ''You are grounded.''\<rparr>"
  let ?m = "''You are grounded.''"
  let ?w0 = "ledger_world True"
  let ?w1 = "add_user_points 101 1 (- 60) ?w0"
  let ?w2 = "add_user_points 101 1 30 ?w1"
  let ?w3 = "add_user_points 101 1 (- 25) ?w2"
  have h2: "distinct (map message [?p])" by simp
  have h4: "?p \<in> set [?p]" by simp
  have r0: "punishments ?w0 101 = Some [?p]" by (simp add: ledger_world_def)
  have r1: "punishments ?w1 101 = Some [?p]" using r0 by simp
  have r2: "punishments ?w2 101 = Some [?p]" using r1 by simp
  have e0: "get_triggered_punishments_for_user ?w0 101 1 = []"
    "outbox ?w0 = []" "admins ?w0 101 = [99]" "get_user_points ?w0 101 1 = 50"
    by (simp_all add: ledger_world_def get_triggered_punishments_for_user_def
        get_user_points_def)
  have rf: "restrict_fails ?w0 101 1" by (simp add: ledger_world_def)
  have b1: "get_user_points ?w1 101 1 = - 10"
    using add_user_points_mute_refused [OF rf, of "- 60"] e0 by simp
  have d0: "distinct (get_triggered_punishments_for_user ?w0 101 1)" by (simp add: e0)
  note s1 = C2_punishment_fires_on_crossing [OF r0 h2 d0 h4, of 0 ?m "- 60",
      unfolded Let_def, simplified e0, simplified]
  have d1: "distinct (get_triggered_punishments_for_user ?w1 101 1)"
    using d0 by (rule add_user_points_distinct)
  note s2 = C2_punishment_fires_on_crossing [OF r1 h2 d1 h4, of 0 ?m 30,
      unfolded Let_def, simplified b1 s1, simplified]
  have b2: "get_user_points ?w2 101 1 = 20"
    using add_user_points_nonneg [of ?w1 101 1 30] b1 by simp
  have t2: "?m \<notin> set (get_triggered_punishments_for_user ?w2 101 1)"
    using s2 by simp
  have d2: "distinct (get_triggered_punishments_for_user ?w2 101 1)"
    using d1 by (rule add_user_points_distinct)
  note s3 = C2_punishment_fires_on_crossing [OF r2 h2 d2 h4, of 0 ?m "- 25",
      unfolded Let_def, simplified b2 t2 s2, simplified]
  have b3: "get_user_points ?w3 101 1 = - 5"
    using add_user_points_mute_refused [of ?w2 101 1 "- 25"] rf b2 by simp
  show ?thesis
    using r0 d0 e0 b1 s1 b2 s2 t2 s3 b3 by simp
qed

section \<open>The scheduler tick\<close>

lemma both_lose:
  assumes "get_user_points w g c = x" and "get_user_points w g p = y" and "c \<noteq> p"
    and "a \<le> x" and "b \<le> y"
  shows "get_user_points (add_user_points g p (- b) (add_user_points g c (- a) w)) g c = x - a"
    and "get_user_points (add_user_points g p (- b) (add_user_points g c (- a) w)) g p = y - b"
proof -
  let ?w1 = "add_user_points g c (- a) w"
  have c1: "get_user_points ?w1 g c = x - a"
    using add_user_points_nonneg [of w g c "- a"] assms by simp
  have c2: "get_user_points ?w1 g p = y"
    using add_user_points_other [of p c g "- a" w] assms by simp
  show "get_user_points (add_user_points g p (- b) ?w1) g c = x - a"
    using add_user_points_other [of c p g "- b" ?w1] c1 assms by simp
  show "get_user_points (add_user_points g p (- b) ?w1) g p = y - b"
    using add_user_points_nonneg [of ?w1 g p "- b"] c2 assms by simp
qed

lemma waiting_game_fields:
  "status waiting_game = Active" "last_activity waiting_game = 150"
  "\<not> warning_sent waiting_game" "group_id waiting_game = 102"
  "challenger_id waiting_game = 3" "opponent_id waiting_game = 4"
  by (simp_all add: waiting_game_def fresh_game_def)

lemma two_sessions_fields:
  "games two_sessions = [(''a'', ttt_game), (''b'', waiting_game)]"
  "get_user_points two_sessions 101 1 = 50" "get_user_points two_sessions 101 2 = 50"
  by (simp_all add: two_sessions_def board_world_def get_user_points_def)

lemma cancel_ttt_game:
  assumes "map_of (games w) ''a'' = Some ttt_game"
    and "get_user_points w 101 1 = x" and "get_user_points w 101 2 = y"
    and "10 \<le> x" and "20 \<le> y"
  shows "get_user_points (handle_game_cancellation ''a'' w) 101 1 = x - 10"
    and "get_user_points (handle_game_cancellation ''a'' w) 101 2 = y - 20"
    and "map_of (games (handle_game_cancellation ''a'' w)) ''a''
           = Some (ttt_game\<lparr>status := Complete, messages_to_delete := []\<rparr>)"
    and "SendMessage 101 (Settlement (CancelledForInactivity 1 2))
           \<in> set (outbox (handle_game_cancellation ''a'' w))"
proof -
  have o: "status ttt_game \<noteq> Complete" by (simp add: ttt_game_stakes)
  have l: "ledger (handle_game_cancellation ''a'' w)
             = ledger (add_user_points 101 2 (- 20) (add_user_points 101 1 (- 10) w))"
    using handle_game_cancellation_cancelled(2) [OF assms(1) o]
    by (simp add: ttt_game_stakes lose_stake_in_cancellation_def)
  have ne: "(1::int) \<noteq> 2" by simp
  show "get_user_points (handle_game_cancellation ''a'' w) 101 1 = x - 10"
    using ledger_balance [OF l, of 101 1] both_lose(1) [OF assms(2) assms(3) ne assms(4) assms(5)]
    by simp
  show "get_user_points (handle_game_cancellation ''a'' w) 101 2 = y - 20"
    using ledger_balance [OF l, of 101 2] both_lose(2) [OF assms(2) assms(3) ne assms(4) assms(5)]
    by simp
  show "map_of (games (handle_game_cancellation ''a'' w)) ''a''
           = Some (ttt_game\<lparr>status := Complete, messages_to_delete := []\<rparr>)"
    using assms(1) o by (rule handle_game_cancellation_cancelled(1))
  show "SendMessage 101 (Settlement (CancelledForInactivity 1 2))
           \<in> set (outbox (handle_game_cancellation ''a'' w))"
    using handle_game_cancellation_notice [OF assms(1) o] by (simp add: ttt_game_stakes)
qed

lemma first_tick:
  "check_game_inactivity 500 two_sessions
     = (emit (SendMessage 102 (Settlement (InactivityWarning 3 4)))
          (handle_game_cancellation ''a'' two_sessions))
       \<lparr>games := [(''a'', ttt_game), (''b'', waiting_game\<lparr>warning_sent := True\<rparr>)]\<rparr>"
  by (simp add: check_game_inactivity_def inactivity_step_def Let_def two_sessions_fields
      ttt_game_stakes waiting_game_fields)

lemma second_tick:
  assumes "games w = [(''a'', ttt_game), (''b'', waiting_game\<lparr>warning_sent := True\<rparr>)]"
  shows "check_game_inactivity 560 w = handle_game_cancellation ''a'' w"
  by (simp add: check_game_inactivity_def inactivity_step_def Let_def assms
      ttt_game_stakes waiting_game_fields)

lemma never_accepted_tick:
  "map_option status (map_of (games (check_game_inactivity 500
        (board_world ''g1'' (idle_game PendingGameSelection False)))) ''g1'') = Some Complete"
  "get_user_points (check_game_inactivity 500
        (board_world ''g1'' (idle_game PendingGameSelection False))) 101 1 = 20"
proof -
  let ?p = "idle_game PendingGameSelection False"
  let ?w = "board_world ''g1'' ?p"
  have h: "check_game_inactivity 500 ?w = handle_game_cancellation ''g1'' ?w"
    by (simp add: check_game_inactivity_def inactivity_step_def Let_def board_world_fields
        idle_game_fields)
  have s: "map_of (games ?w) ''g1'' = Some ?p" "status ?p \<noteq> Complete"
    by (simp_all add: board_world_fields idle_game_fields)
  have l: "ledger (handle_game_cancellation ''g1'' ?w)
             = ledger (add_user_points 101 1 (- 30) ?w)"
    using handle_game_cancellation_cancelled(2) [OF s]
    by (simp add: idle_game_fields lose_stake_in_cancellation_def)
  show "get_user_points (check_game_inactivity 500 ?w) 101 1 = 20"
    using ledger_balance [OF l, of 101 1] add_user_points_nonneg [of ?w 101 1 "- 30"]
    by (simp add: h board_world_balance)
  show "map_option status (map_of (games (check_game_inactivity 500 ?w)) ''g1'') = Some Complete"
    using handle_game_cancellation_cancelled(1) [OF s] by (simp add: h)
qed

lemma warned_dice_roll:
  "games (dice_roll_handler (Some (dice_emoji_literal, 4)) 2 101 55 310 warned_dice_world)
     = [(''d1'', (dice_game None)\<lparr>warning_sent := True,
                   messages_to_delete := [(101, 55)], last_roll := Some (2, 4)\<rparr>)]"
  by (simp add: dice_roll_handler_def find_dice_game_def warned_dice_world_def dice_world_def
      dice_game_def fresh_game_def Let_def)

text \<open>
  C5. \<open>check_game_inactivity\<close> is one tick of the scheduler: it loads the games file once
  and goes through the sessions of that snapshot. Three runs in which the tick does not
  do what the claim says.
  \<^item> A session that was never accepted. The challenger has submitted a stake of 30
    points and has not confirmed the setup, so the session is still
    \<open>pending_game_selection\<close>. The tick at 500 seconds cancels it through
    \<open>handle_game_cancellation\<close>, which only leaves out sessions that are complete, and
    the challenger loses the 30 points.
  \<^item> Two sessions in one tick. Session \<open>a\<close> is active and idle for 500 seconds, session
    \<open>b\<close> is active and idle for 350 seconds. The tick cancels \<open>a\<close> and deducts both
    stakes (balances 40 and 30), then warns \<open>b\<close> and saves the snapshot it loaded at the
    start: in the file \<open>a\<close> is active again. The next tick, 60 seconds later, cancels \<open>a\<close>
    a second time and deducts both stakes again (balances 30 and 10).
  \<^item> Activity that does not clear the mark. A die rolled in a warned dice session is
    handled by \<open>dice_roll_handler\<close>, which saves the dictionary it loaded before
    \<open>update_game_activity\<close> ran: the session keeps the mark and its old time of last
    activity. A die with the emoji of the platform does not get past the first line of
    the handler, and changes nothing either.
\<close>

theorem C5_inactivity_tick_settlement:
  "status (idle_game PendingGameSelection False) = PendingGameSelection
   \<and> challenger_stake (idle_game PendingGameSelection False) = Some (Points 30)
   \<and> last_activity (idle_game PendingGameSelection False) = 0
   \<and> games (board_world ''g1'' (idle_game PendingGameSelection False))
       = [(''g1'', idle_game PendingGameSelection False)]
   \<and> get_user_points (board_world ''g1'' (idle_game PendingGameSelection False)) 101 1 = 50
   \<and> map_option status (map_of (games (check_game_inactivity 500
        (board_world ''g1'' (idle_game PendingGameSelection False)))) ''g1'') = Some Complete
   \<and> get_user_points (check_game_inactivity 500
        (board_world ''g1'' (idle_game PendingGameSelection False))) 101 1 = 20
   \<and> games two_sessions = [(''a'', ttt_game), (''b'', waiting_game)]
   \<and> status ttt_game = Active \<and> last_activity ttt_game = 0
   \<and> challenger_stake ttt_game = Some (Points 10) \<and> opponent_stake ttt_game = Some (Points 20)
   \<and> status waiting_game = Active \<and> last_activity waiting_game = 150
   \<and> get_user_points two_sessions 101 1 = 50 \<and> get_user_points two_sessions 101 2 = 50
   \<and> get_user_points (check_game_inactivity 500 two_sessions) 101 1 = 40
   \<and> get_user_points (check_game_inactivity 500 two_sessions) 101 2 = 30
   \<and> SendMessage 101 (Settlement (CancelledForInactivity 1 2))
        \<in> set (outbox (check_game_inactivity 500 two_sessions))
   \<and> map_of (games (check_game_inactivity 500 two_sessions)) ''a'' = Some ttt_game
   \<and> map_option warning_sent (map_of (games (check_game_inactivity 500 two_sessions)) ''b'')
       = Some True
   \<and> get_user_points (check_game_inactivity 560 (check_game_inactivity 500 two_sessions))
        101 1 = 30
   \<and> get_user_points (check_game_inactivity 560 (check_game_inactivity 500 two_sessions))
        101 2 = 10
   \<and> map_option status (map_of (games (check_game_inactivity 560
        (check_game_inactivity 500 two_sessions))) ''a'') = Some Complete
   \<and> games warned_dice_world = [(''d1'', (dice_game None)\<lparr>warning_sent := True\<rparr>)]
   \<and> last_activity (dice_game None) = 0
   \<and> map_option warning_sent (map_of (games (dice_roll_handler (Some (dice_emoji_literal, 4))
        2 101 55 310 warned_dice_world)) ''d1'') = Some True
   \<and> map_option last_activity (map_of (games (dice_roll_handler (Some (dice_emoji_literal, 4))
        2 101 55 310 warned_dice_world)) ''d1'') = Some 0
   \<and> map_option last_roll (map_of (games (dice_roll_handler (Some (dice_emoji_literal, 4))
        2 101 55 310 warned_dice_world)) ''d1'') = Some (Some (2, 4))
   \<and> dice_roll_handler (Some (game_die, 4)) 2 101 55 310 warned_dice_world = warned_dice_world"
proof -
  let ?w0 = two_sessions
  let ?w1 = "check_game_inactivity 500 two_sessions"
  let ?w2 = "check_game_inactivity 560 ?w1"
  have a0: "map_of (games ?w0) ''a'' = Some ttt_game"
    by (simp add: two_sessions_fields)
  note c0 = cancel_ttt_game [OF a0 two_sessions_fields(2) two_sessions_fields(3)]
  have b1: "get_user_points ?w1 101 1 = 40" "get_user_points ?w1 101 2 = 30"
    using c0(1) c0(2) by (simp_all add: first_tick get_user_points_def)
  have n1: "SendMessage 101 (Settlement (CancelledForInactivity 1 2)) \<in> set (outbox ?w1)"
    using c0(4) by (simp add: first_tick)
  have g1: "games ?w1 = [(''a'', ttt_game), (''b'', waiting_game\<lparr>warning_sent := True\<rparr>)]"
    by (simp add: first_tick)
  have a1: "map_of (games ?w1) ''a'' = Some ttt_game"
    by (simp add: g1)
  have t2: "?w2 = handle_game_cancellation ''a'' ?w1"
    using g1 by (rule second_tick)
  note c1 = cancel_ttt_game [OF a1 b1]
  have b2: "get_user_points ?w2 101 1 = 30" "get_user_points ?w2 101 2 = 10"
    using c1(1) c1(2) by (simp_all add: t2)
  have s2: "map_option status (map_of (games ?w2) ''a'') = Some Complete"
    using c1(3) by (simp add: t2)
  have d: "dice_roll_handler (Some (game_die, 4)) 2 101 55 310 warned_dice_world
             = warned_dice_world"
    by (simp add: dice_roll_handler_def game_die_def dice_emoji_literal_def)
  have f: "games warned_dice_world = [(''d1'', (dice_game None)\<lparr>warning_sent := True\<rparr>)]"
    "last_activity (dice_game None) = 0"
    by (simp_all add: warned_dice_world_def dice_game_def fresh_game_def)
  show ?thesis
    using never_accepted_tick b1 n1 b2 s2 d
    by (simp add: g1 f warned_dice_roll idle_game_fields board_world_fields
        board_world_balance two_sessions_fields ttt_game_stakes waiting_game_fields)
qed

end
